theory Spec2Isabelle
  imports Complex_Main
begin

section \<open>Easing library\<close>

text \<open>
  The repository holds two parallel implementations of the transition engine:
  \<^verbatim>\<open>lib/matplotlib/transitions.py\<close> and \<^verbatim>\<open>smooth_transitions.py\<close>. Both define a class
  \<^verbatim>\<open>EasingFunctions\<close>, a function \<^verbatim>\<open>interpolate_values\<close> and a function
  \<^verbatim>\<open>smooth_transition\<close>. The definitions taken from \<^verbatim>\<open>transitions.py\<close> keep the source's
  names; those taken from \<^verbatim>\<open>smooth_transitions.py\<close> carry the suffix \<open>_st\<close>.

  In the definitions of this section Python floats are idealised as the reals:
  \<^verbatim>\<open>pow(x, 3)\<close> and \<^verbatim>\<open>x ** 3\<close> are \<open>x ^ 3\<close>, \<^verbatim>\<open>np.cos\<close>, \<^verbatim>\<open>np.sin\<close> and \<^verbatim>\<open>np.pi\<close> are \<open>cos\<close>,
  \<open>sin\<close> and \<open>pi\<close>, and no operation rounds. The section on floating-point arithmetic
  below gives the rounded form of the quadratic ease-in-out of both files.
\<close>

subsection \<open>\<^verbatim>\<open>transitions.py\<close>, class \<^verbatim>\<open>EasingFunctions\<close>\<close>

definition linear_easing :: "real \<Rightarrow> real" where
  "linear_easing t = t"

definition ease_in_quad :: "real \<Rightarrow> real" where
  "ease_in_quad t = t * t"

definition ease_out_quad :: "real \<Rightarrow> real" where
  "ease_out_quad t = 1 - (1 - t) * (1 - t)"

definition ease_in_out_quad :: "real \<Rightarrow> real" where
  "ease_in_out_quad t = (if t < 0.5 then 2 * t * t else 1 - (- 2 * t + 2) ^ 2 / 2)"

definition ease_in_cubic :: "real \<Rightarrow> real" where
  "ease_in_cubic t = t * t * t"

definition ease_out_cubic :: "real \<Rightarrow> real" where
  "ease_out_cubic t = 1 - (1 - t) ^ 3"

definition ease_in_out_cubic :: "real \<Rightarrow> real" where
  "ease_in_out_cubic t = (if t < 0.5 then 4 * t * t * t else 1 - (- 2 * t + 2) ^ 3 / 2)"

definition ease_in_sine :: "real \<Rightarrow> real" where
  "ease_in_sine t = 1 - cos ((t * pi) / 2)"

definition ease_out_sine :: "real \<Rightarrow> real" where
  "ease_out_sine t = sin ((t * pi) / 2)"

definition ease_in_out_sine :: "real \<Rightarrow> real" where
  "ease_in_out_sine t = - (cos (pi * t) - 1) / 2"

text \<open>The static methods of the class, by name, in the order of the source.\<close>

definition EasingFunctions :: "(string \<times> (real \<Rightarrow> real)) list" where
  "EasingFunctions =
     [(''linear'', linear_easing),
      (''ease_in_quad'', ease_in_quad),
      (''ease_out_quad'', ease_out_quad),
      (''ease_in_out_quad'', ease_in_out_quad),
      (''ease_in_cubic'', ease_in_cubic),
      (''ease_out_cubic'', ease_out_cubic),
      (''ease_in_out_cubic'', ease_in_out_cubic),
      (''ease_in_sine'', ease_in_sine),
      (''ease_out_sine'', ease_out_sine),
      (''ease_in_out_sine'', ease_in_out_sine)]"

subsection \<open>\<^verbatim>\<open>smooth_transitions.py\<close>, class \<^verbatim>\<open>EasingFunctions\<close>\<close>

definition linear_st :: "real \<Rightarrow> real" where
  "linear_st t = t"

definition ease_in_quad_st :: "real \<Rightarrow> real" where
  "ease_in_quad_st t = t * t"

definition ease_out_quad_st :: "real \<Rightarrow> real" where
  "ease_out_quad_st t = 1 - (1 - t) * (1 - t)"

definition ease_in_out_quad_st :: "real \<Rightarrow> real" where
  "ease_in_out_quad_st t = (if t < 0.5 then 2 * t * t else 1 - 2 * (1 - t) * (1 - t))"

definition ease_in_cubic_st :: "real \<Rightarrow> real" where
  "ease_in_cubic_st t = t * t * t"

definition ease_out_cubic_st :: "real \<Rightarrow> real" where
  "ease_out_cubic_st t = 1 - (1 - t) ^ 3"

definition ease_in_out_cubic_st :: "real \<Rightarrow> real" where
  "ease_in_out_cubic_st t = (if t < 0.5 then 4 * t * t * t else 1 - 4 * (1 - t) ^ 3)"

definition EasingFunctions_st :: "(string \<times> (real \<Rightarrow> real)) list" where
  "EasingFunctions_st =
     [(''linear'', linear_st),
      (''ease_in_quad'', ease_in_quad_st),
      (''ease_out_quad'', ease_out_quad_st),
      (''ease_in_out_quad'', ease_in_out_quad_st),
      (''ease_in_cubic'', ease_in_cubic_st),
      (''ease_out_cubic'', ease_out_cubic_st),
      (''ease_in_out_cubic'', ease_in_out_cubic_st)]"

section \<open>Values and the value interpolator\<close>

text \<open>
  Python's exceptions are values: a function that can raise returns \<open>py_error + 'a\<close>,
  with \<open>Inl\<close> for the exception that leaves the function.
\<close>

datatype py_error = ValueError | TypeError | ZeroDivisionError | IndexError | KeyError

text \<open>
  The dynamically typed values that reach the interpolator. \<open>NdArray\<close> is a
  one-dimensional numpy array, \<open>NdArray2 k rows\<close> a two-dimensional one with \<open>k\<close> columns
  (the offsets and colours of a scatter collection), given by its rows. Python's \<^verbatim>\<open>int\<close> and
  \<^verbatim>\<open>float\<close> are both \<open>Num\<close>.
\<close>

datatype pyval =
    Num real
  | NdArray "real list"
  | NdArray2 nat "real list list"
  | PyList "pyval list"
  | PyTuple "pyval list"
  | PyStr string
  | PyDict "(string \<times> pyval) list"
  | PyNone

text \<open>The tests \<^verbatim>\<open>isinstance(v, (int, float))\<close>, \<^verbatim>\<open>isinstance(v, np.ndarray)\<close>,
  \<^verbatim>\<open>isinstance(v, (list, tuple))\<close> and \<^verbatim>\<open>isinstance(v, str)\<close>, and the payloads they guard.\<close>

fun is_number :: "pyval \<Rightarrow> bool" where
  "is_number (Num _) = True"
| "is_number _ = False"

fun is_ndarray :: "pyval \<Rightarrow> bool" where
  "is_ndarray (NdArray _) = True"
| "is_ndarray (NdArray2 _ _) = True"
| "is_ndarray _ = False"

fun is_sequence :: "pyval \<Rightarrow> bool" where
  "is_sequence (PyList _) = True"
| "is_sequence (PyTuple _) = True"
| "is_sequence _ = False"

fun is_str :: "pyval \<Rightarrow> bool" where
  "is_str (PyStr _) = True"
| "is_str _ = False"

fun num_of :: "pyval \<Rightarrow> real" where
  "num_of (Num x) = x"
| "num_of _ = 0"

fun items :: "pyval \<Rightarrow> pyval list" where
  "items (PyList xs) = xs"
| "items (PyTuple xs) = xs"
| "items _ = []"

fun str_of :: "pyval \<Rightarrow> string" where
  "str_of (PyStr s) = s"
| "str_of _ = []"

text \<open>A list of results, evaluated from left to right: the first exception leaves the loop.\<close>

fun sequence_sum :: "('e + 'a) list \<Rightarrow> 'e + 'a list" where
  "sequence_sum [] = Inr []"
| "sequence_sum (Inl e # _) = Inl e"
| "sequence_sum (Inr v # rs) = (case sequence_sum rs of Inl e \<Rightarrow> Inl e | Inr vs \<Rightarrow> Inr (v # vs))"

definition bind_err :: "'e + 'a \<Rightarrow> ('a \<Rightarrow> 'e + 'b) \<Rightarrow> 'e + 'b" where
  "bind_err r f = (case r of Inl e \<Rightarrow> Inl e | Inr v \<Rightarrow> f v)"

text \<open>The expression \<^verbatim>\<open>start_val + (end_val - start_val) * progress\<close> on two floats.\<close>

definition blend :: "real \<Rightarrow> real \<Rightarrow> real \<Rightarrow> real" where
  "blend s e progress = s + (e - s) * progress"

text \<open>
  The same expression on numpy arrays. numpy applies it elementwise after broadcasting:
  along one axis two lengths are compatible when they are equal or one of them is 1, and
  the operators raise \<^verbatim>\<open>ValueError\<close> otherwise.
\<close>

definition np_blend :: "real list \<Rightarrow> real list \<Rightarrow> real \<Rightarrow> py_error + real list" where
  "np_blend xs ys progress =
     (if length xs = length ys then Inr (map2 (\<lambda>s e. blend s e progress) xs ys)
      else if length xs = 1 then Inr (map (\<lambda>e. blend (hd xs) e progress) ys)
      else if length ys = 1 then Inr (map (\<lambda>s. blend s (hd ys) progress) xs)
      else Inl ValueError)"

definition np_blend_rows ::
  "real list list \<Rightarrow> real list list \<Rightarrow> real \<Rightarrow> py_error + real list list" where
  "np_blend_rows rs rs' progress =
     (if length rs = length rs' then sequence_sum (map2 (\<lambda>r r'. np_blend r r' progress) rs rs')
      else if length rs = 1 then sequence_sum (map (\<lambda>r'. np_blend (hd rs) r' progress) rs')
      else if length rs' = 1 then sequence_sum (map (\<lambda>r. np_blend r (hd rs') progress) rs)
      else Inl ValueError)"

definition np_blend2 ::
  "nat \<Rightarrow> real list list \<Rightarrow> nat \<Rightarrow> real list list \<Rightarrow> real \<Rightarrow> py_error + pyval" where
  "np_blend2 k rs k' rs' progress =
     (if k = k' \<or> k = 1 \<or> k' = 1
      then map_sum id (NdArray2 (if k = 1 then k' else k)) (np_blend_rows rs rs' progress)
      else Inl ValueError)"

text \<open>A one-dimensional array of length \<open>n\<close> broadcasts against a two-dimensional one as
  the single row of an array with \<open>n\<close> columns.\<close>

fun np_interpolate :: "pyval \<Rightarrow> pyval \<Rightarrow> real \<Rightarrow> py_error + pyval" where
  "np_interpolate (NdArray xs) (NdArray ys) progress = map_sum id NdArray (np_blend xs ys progress)"
| "np_interpolate (NdArray2 k rs) (NdArray2 k' rs') progress = np_blend2 k rs k' rs' progress"
| "np_interpolate (NdArray xs) (NdArray2 k' rs') progress = np_blend2 (length xs) [xs] k' rs' progress"
| "np_interpolate (NdArray2 k rs) (NdArray ys) progress = np_blend2 k rs (length ys) [ys] progress"
| "np_interpolate _ _ _ = Inl TypeError"

text \<open>\<^verbatim>\<open>return start_val if progress < 0.5 else end_val\<close>, the default of
  \<^verbatim>\<open>interpolate_values\<close> and the handler of its \<^verbatim>\<open>except\<close> clause.\<close>

definition threshold_switch :: "pyval \<Rightarrow> pyval \<Rightarrow> real \<Rightarrow> py_error + pyval" where
  "threshold_switch start_val end_val progress =
     Inr (if progress < 0.5 then start_val else end_val)"

text \<open>
  \<^verbatim>\<open>matplotlib.colors.to_rgb\<close> is not among the source files: it is the parameter
  \<open>to_rgb\<close>, which gives the three channels of a colour string, or \<open>None\<close> where the
  library raises. The tuple it returns is \<open>rgb_tuple\<close>.
\<close>

type_synonym rgb_conv = "string \<Rightarrow> (real \<times> real \<times> real) option"

fun rgb_tuple :: "real \<times> real \<times> real \<Rightarrow> pyval" where
  "rgb_tuple (r, g, b) = PyTuple [Num r, Num g, Num b]"

text \<open>The measure of the recursion of \<^verbatim>\<open>interpolate_values\<close>: a string weighs more than
  the tuple of three floats it converts to.\<close>

fun weight :: "pyval \<Rightarrow> nat" where
  "weight (PyList xs) = Suc (sum_list (map weight xs))"
| "weight (PyTuple xs) = Suc (sum_list (map weight xs))"
| "weight (PyStr _) = 5"
| "weight _ = 1"

text \<open>\<^verbatim>\<open>transitions.py\<close>, \<^verbatim>\<open>interpolate_values\<close> (lines 81 to 119), branch by branch.\<close>

function interpolate_values :: "rgb_conv \<Rightarrow> pyval \<Rightarrow> pyval \<Rightarrow> real \<Rightarrow> py_error + pyval" where
  "interpolate_values to_rgb start_val end_val progress =
     (if is_number start_val \<and> is_number end_val then
        Inr (Num (num_of start_val + (num_of end_val - num_of start_val) * progress))
      else if is_ndarray start_val \<and> is_ndarray end_val then
        np_interpolate start_val end_val progress
      else if is_sequence start_val \<and> is_sequence end_val then
        (if length (items start_val) = length (items end_val) then
           map_sum id PyList
             (sequence_sum
                (map (\<lambda>(s, e). interpolate_values to_rgb s e progress)
                   (zip (items start_val) (items end_val))))
         else threshold_switch start_val end_val progress)
      else if is_str start_val \<and> is_str end_val then
        (case to_rgb (str_of start_val) of
           None \<Rightarrow> threshold_switch start_val end_val progress
         | Some start_rgb \<Rightarrow>
             (case to_rgb (str_of end_val) of
                None \<Rightarrow> threshold_switch start_val end_val progress
              | Some end_rgb \<Rightarrow>
                  (case interpolate_values to_rgb (rgb_tuple start_rgb) (rgb_tuple end_rgb) progress of
                     Inl _ \<Rightarrow> threshold_switch start_val end_val progress
                   | Inr interpolated_rgb \<Rightarrow> Inr interpolated_rgb)))
      else threshold_switch start_val end_val progress)"
  by pat_completeness auto
termination
proof (relation "measure (\<lambda>(to_rgb, start_val, end_val, progress). weight start_val)")
  show "wf (measure (\<lambda>(to_rgb, start_val, end_val, progress). weight start_val))"
    by simp
next
  fix to_rgb :: rgb_conv and start_val end_val :: pyval and progress :: real and x s e
  assume seq: "is_sequence start_val \<and> is_sequence end_val"
    and mem: "x \<in> set (zip (items start_val) (items end_val))" and x: "(s, e) = x"
  have le: "weight v \<le> sum_list (map weight vs)" if "v \<in> set vs" for v vs
    using that by (induction vs) auto
  from mem x have "s \<in> set (items start_val)"
    by (metis set_zip_leftD)
  then have "weight s \<le> sum_list (map weight (items start_val))"
    by (rule le)
  moreover from seq have "weight start_val = Suc (sum_list (map weight (items start_val)))"
    by (cases start_val) simp_all
  ultimately show "((to_rgb, s, e, progress), (to_rgb, start_val, end_val, progress))
      \<in> measure (\<lambda>(to_rgb, start_val, end_val, progress). weight start_val)"
    by simp
next
  fix to_rgb :: rgb_conv and start_val end_val :: pyval and progress :: real and start_rgb end_rgb
  assume "is_str start_val \<and> is_str end_val"
  then have "weight start_val = 5"
    by (cases start_val) simp_all
  moreover have "weight (rgb_tuple start_rgb) = 4"
    by (cases start_rgb) simp
  ultimately show "((to_rgb, rgb_tuple start_rgb, rgb_tuple end_rgb, progress),
      (to_rgb, start_val, end_val, progress))
      \<in> measure (\<lambda>(to_rgb, start_val, end_val, progress). weight start_val)"
    by simp
qed

declare interpolate_values.simps [simp del]

subsection \<open>\<^verbatim>\<open>smooth_transitions.py\<close>: \<^verbatim>\<open>interpolate_values\<close> and \<^verbatim>\<open>interpolate_colors\<close>\<close>

text \<open>
  The second implementation declares its arguments as \<^verbatim>\<open>Union[float, np.ndarray]\<close> and is
  the bare expression \<^verbatim>\<open>from_val + (to_val - from_val) * progress\<close> (lines 43 to 47); a
  float broadcasts against an array.
\<close>

datatype float_or_ndarray = Float real | Array "real list"

fun interpolate_values_st ::
  "float_or_ndarray \<Rightarrow> float_or_ndarray \<Rightarrow> real \<Rightarrow> py_error + float_or_ndarray" where
  "interpolate_values_st (Float a) (Float b) progress = Inr (Float (a + (b - a) * progress))"
| "interpolate_values_st (Array xs) (Array ys) progress = map_sum id Array (np_blend xs ys progress)"
| "interpolate_values_st (Float a) (Array ys) progress = Inr (Array (map (\<lambda>e. blend a e progress) ys))"
| "interpolate_values_st (Array xs) (Float b) progress = Inr (Array (map (\<lambda>s. blend s b progress) xs))"

text \<open>
  \<^verbatim>\<open>matplotlib.colors.to_rgba\<close> is the parameter \<open>to_rgba\<close>: the four channels of a colour
  given as a string or a tuple, or \<open>None\<close> where the library raises \<^verbatim>\<open>ValueError\<close>.
  \<^verbatim>\<open>interpolate_colors\<close> (lines 49 to 59) has no handler, so the exception leaves it.
\<close>

type_synonym rgba = "real \<times> real \<times> real \<times> real"

type_synonym rgba_conv = "pyval \<Rightarrow> rgba option"

fun channel :: "rgba \<Rightarrow> nat \<Rightarrow> real" where
  "channel (r, g, b, a) i = (if i = 0 then r else if i = 1 then g else if i = 2 then b else a)"

definition interpolate_colors :: "rgba_conv \<Rightarrow> pyval \<Rightarrow> pyval \<Rightarrow> real \<Rightarrow> py_error + real list" where
  "interpolate_colors to_rgba from_color to_color progress =
     (case to_rgba from_color of
        None \<Rightarrow> Inl ValueError
      | Some from_rgba \<Rightarrow>
          (case to_rgba to_color of
             None \<Rightarrow> Inl ValueError
           | Some to_rgba_val \<Rightarrow>
               Inr (map (\<lambda>i. channel from_rgba i + (channel to_rgba_val i - channel from_rgba i) * progress)
                      [0..<4])))"

section \<open>Floating-point arithmetic\<close>

text \<open>
  A Python float is an IEEE 754 double: a real number that \<open>fl\<close> leaves unchanged, where
  \<open>fl\<close> rounds a real to the nearest number with a significand of 53 bits, ties to the
  even significand (overflow and subnormal numbers are left out). Each of \<^verbatim>\<open>+\<close>, \<^verbatim>\<open>-\<close>, \<^verbatim>\<open>*\<close>
  and \<^verbatim>\<open>/\<close> on floats is the exact operation followed by \<open>fl\<close>.
\<close>

definition round_even :: "real \<Rightarrow> int" where
  "round_even y =
     (let f = \<lfloor>y\<rfloor>; d = y - real_of_int f
      in if d < 1 / 2 then f else if 1 / 2 < d then f + 1 else if even f then f else f + 1)"

definition fl :: "real \<Rightarrow> real" where
  "fl x =
     (if x = 0 then 0
      else (let u = 2 powr (real_of_int \<lfloor>log 2 \<bar>x\<bar>\<rfloor> - 52)
            in real_of_int (round_even (x / u)) * u))"

text \<open>
  \<^verbatim>\<open>ease_in_out_quad\<close> of both files on floats, operation by operation. Python's
  \<^verbatim>\<open>pow(x, 2)\<close> on a float is the \<^verbatim>\<open>pow\<close> of the C library, which is not among the source
  files and need not be the correctly rounded power: it is the parameter \<open>libm_pow\<close>.
\<close>

type_synonym libm = "real \<Rightarrow> real \<Rightarrow> real"

definition ease_in_out_quad_float :: "libm \<Rightarrow> real \<Rightarrow> real" where
  "ease_in_out_quad_float libm_pow t =
     (if t < 0.5 then fl (fl (2 * t) * t)
      else fl (1 - fl (libm_pow (fl (fl (- 2 * t) + 2)) 2 / 2)))"

definition ease_in_out_quad_st_float :: "real \<Rightarrow> real" where
  "ease_in_out_quad_st_float t =
     (if t < 0.5 then fl (fl (2 * t) * t)
      else fl (1 - fl (fl (2 * fl (1 - t)) * fl (1 - t))))"

section \<open>Frame schedule\<close>

text \<open>
  Python's \<^verbatim>\<open>int(x)\<close> on a float truncates toward zero. \<^verbatim>\<open>num_frames = int(duration * fps)\<close>
  is computed alike in both files (\<^verbatim>\<open>transitions.py\<close> line 175, \<^verbatim>\<open>smooth_transitions.py\<close>
  line 98): the product is a float product, rounded before it is truncated.
  \<^verbatim>\<open>FuncAnimation(frames=num_frames)\<close> calls \<^verbatim>\<open>animate\<close> with the frame indices
  \<^verbatim>\<open>range(num_frames)\<close>.
\<close>

definition py_int :: "real \<Rightarrow> int" where
  "py_int x = (if 0 \<le> x then \<lfloor>x\<rfloor> else \<lceil>x\<rceil>)"

definition num_frames :: "real \<Rightarrow> int \<Rightarrow> int" where
  "num_frames duration fps = py_int (fl (duration * real_of_int fps))"

definition frame_indices :: "int \<Rightarrow> int list" where
  "frame_indices n = [0..n - 1]"

text \<open>The first two statements of \<^verbatim>\<open>animate\<close>: \<^verbatim>\<open>transitions.py\<close> lines 191 and 192,
  \<^verbatim>\<open>smooth_transitions.py\<close> lines 139 and 140.\<close>

definition frame_progress :: "int \<Rightarrow> int \<Rightarrow> real" where
  "frame_progress n frame =
     max 0 (min 1 (if n > 1 then real_of_int frame / real_of_int (n - 1) else 1))"

definition frame_progress_st :: "int \<Rightarrow> int \<Rightarrow> real" where
  "frame_progress_st n frame =
     min 1 (max 0 (if n > 1 then real_of_int frame / real_of_int (n - 1) else 1))"

section \<open>Looking an easing function up by name\<close>

text \<open>
  \<^verbatim>\<open>getattr(EasingFunctions, easing, EasingFunctions.linear)\<close> searches the attributes of the
  class object and returns the default only when there is none of that name. The class
  statement of the source creates the static methods and, from its docstring, the
  attribute \<^verbatim>\<open>__doc__\<close>, a string. The attributes that every class object inherits from
  Python's \<^verbatim>\<open>object\<close> and \<^verbatim>\<open>type\<close> are not in the source: they are the parameter
  \<open>inherited\<close>.

  What the lookup finds is called with the progress. A callable is modelled as a function
  into \<open>py_error + real\<close>; calling a string raises \<^verbatim>\<open>TypeError\<close>.
\<close>

datatype attr = Callable "real \<Rightarrow> py_error + real" | NotCallable

type_synonym runtime_attrs = "string \<Rightarrow> attr option"

definition getattr_EasingFunctions :: "runtime_attrs \<Rightarrow> string \<Rightarrow> attr" where
  "getattr_EasingFunctions inherited name =
     (case map_of EasingFunctions name of
        Some f \<Rightarrow> Callable (\<lambda>t. Inr (f t))
      | None \<Rightarrow>
          if name = ''__doc__'' then NotCallable
          else (case inherited name of
                  Some a \<Rightarrow> a
                | None \<Rightarrow> Callable (\<lambda>t. Inr (linear_easing t))))"

definition getattr_EasingFunctions_st :: "runtime_attrs \<Rightarrow> string \<Rightarrow> attr" where
  "getattr_EasingFunctions_st inherited name =
     (case map_of EasingFunctions_st name of
        Some f \<Rightarrow> Callable (\<lambda>t. Inr (f t))
      | None \<Rightarrow>
          if name = ''__doc__'' then NotCallable
          else (case inherited name of
                  Some a \<Rightarrow> a
                | None \<Rightarrow> Callable (\<lambda>t. Inr (linear_st t))))"

fun call :: "attr \<Rightarrow> real \<Rightarrow> py_error + real" where
  "call (Callable f) t = f t"
| "call NotCallable t = Inl TypeError"

text \<open>The \<^verbatim>\<open>easing\<close> argument of \<^verbatim>\<open>transitions.py\<close> is a name or a function of the
  caller (lines 165 to 168); that of \<^verbatim>\<open>smooth_transitions.py\<close> is a name (line 95).\<close>

datatype easing_arg = EasingName string | EasingFunction "real \<Rightarrow> py_error + real"

fun get_easing_func :: "runtime_attrs \<Rightarrow> easing_arg \<Rightarrow> attr" where
  "get_easing_func inherited (EasingName name) = getattr_EasingFunctions inherited name"
| "get_easing_func inherited (EasingFunction f) = Callable f"

section \<open>\<^verbatim>\<open>smooth_transition\<close>\<close>

text \<open>
  What the constructor returns: the arguments it hands to \<^verbatim>\<open>FuncAnimation\<close>. The host
  calls \<open>anim_func\<close> once for each index of \<open>frame_indices (anim_frames a)\<close>. A frame is
  the list of drawing calls that \<^verbatim>\<open>animate\<close> makes on the axes.
\<close>

record 'f animation =
  anim_frames :: int
  anim_interval :: real
  anim_func :: "int \<Rightarrow> py_error + 'f"

text \<open>
  The constructor of matplotlib's \<^verbatim>\<open>FuncAnimation\<close>, called with \<^verbatim>\<open>frames\<close>, \<^verbatim>\<open>interval\<close> and
  the frame function. It belongs to the host: it refuses a negative frame count with
  \<^verbatim>\<open>ValueError\<close> and returns the animation object otherwise, also for a count of 0.
\<close>

definition FuncAnimation :: "int \<Rightarrow> real \<Rightarrow> (int \<Rightarrow> py_error + 'f) \<Rightarrow> py_error + 'f animation" where
  "FuncAnimation frames interval func =
     (if frames < 0 then Inl ValueError
      else Inr \<lparr>anim_frames = frames, anim_interval = interval, anim_func = func\<rparr>)"

type_synonym pydict = "(string \<times> pyval) list"

datatype draw_call = Draw string "pyval list" pydict

fun dict_set :: "string \<Rightarrow> pyval \<Rightarrow> pydict \<Rightarrow> pydict" where
  "dict_set k v [] = [(k, v)]"
| "dict_set k v ((k', v') # d) = (if k' = k then (k, v) # d else (k', v') # dict_set k v d)"

definition dict_item :: "pydict \<Rightarrow> string \<Rightarrow> py_error + pyval" where
  "dict_item d k = (case map_of d k of None \<Rightarrow> Inl KeyError | Some v \<Rightarrow> Inr v)"

fun py_len :: "pyval \<Rightarrow> py_error + nat" where
  "py_len (NdArray xs) = Inr (length xs)"
| "py_len (NdArray2 k rs) = Inr (length rs)"
| "py_len (PyList xs) = Inr (length xs)"
| "py_len (PyTuple xs) = Inr (length xs)"
| "py_len (PyStr s) = Inr (length s)"
| "py_len (PyDict d) = Inr (length d)"
| "py_len _ = Inl TypeError"

definition py_range :: "nat \<Rightarrow> pyval" where
  "py_range n = PyList (map (\<lambda>i. Num (real i)) [0..<n])"

text \<open>
  \<^verbatim>\<open>_normalize_data\<close> (\<^verbatim>\<open>transitions.py\<close> lines 313 to 329). \<^verbatim>\<open>np.array\<close> is the parameter
  \<open>np_array\<close>. A dictionary passes whatever the plot type is.
\<close>

type_synonym array_conv = "pyval \<Rightarrow> py_error + pyval"

fun is_array_like :: "pyval \<Rightarrow> bool" where
  "is_array_like (PyList _) = True"
| "is_array_like (PyTuple _) = True"
| "is_array_like (NdArray _) = True"
| "is_array_like (NdArray2 _ _) = True"
| "is_array_like _ = False"

fun normalize_data :: "array_conv \<Rightarrow> pyval \<Rightarrow> string \<Rightarrow> py_error + pydict" where
  "normalize_data np_array (PyDict d) plot_type = Inr d"
| "normalize_data np_array data plot_type =
     (if plot_type = ''line'' then
        (if is_array_like data
         then bind_err (np_array data) (\<lambda>y. Inr [(''y'', y)])
         else Inl ValueError)
      else if plot_type = ''scatter'' then
        (if is_sequence data \<and> length (items data) = 2
         then bind_err (np_array (items data ! 0)) (\<lambda>x.
              bind_err (np_array (items data ! 1)) (\<lambda>y. Inr [(''x'', x), (''y'', y)]))
         else Inl ValueError)
      else if plot_type = ''bar'' then
        (if is_array_like data
         then bind_err (np_array data) (\<lambda>h. Inr [(''heights'', h)])
         else Inl ValueError)
      else Inl ValueError)"

text \<open>The loop over the keys of \<^verbatim>\<open>from_data_norm\<close> (lines 196 to 203); the keys of a
  dictionary are distinct.\<close>

definition interpolate_data :: "rgb_conv \<Rightarrow> pydict \<Rightarrow> pydict \<Rightarrow> real \<Rightarrow> py_error + pydict" where
  "interpolate_data to_rgb from_data_norm to_data_norm eased_progress =
     sequence_sum
       (map (\<lambda>(key, v).
               case map_of to_data_norm key of
                 Some w \<Rightarrow> map_sum id (Pair key) (interpolate_values to_rgb v w eased_progress)
               | None \<Rightarrow> Inr (key, v))
          from_data_norm)"

text \<open>The drawing of one frame (lines 205 to 238). The default of \<^verbatim>\<open>dict.get\<close> is
  evaluated before the call, so \<^verbatim>\<open>current_data['y']\<close> is read also when \<^verbatim>\<open>'x'\<close> is there.\<close>

definition draw_frame :: "string \<Rightarrow> pydict \<Rightarrow> pydict \<Rightarrow> py_error + draw_call list" where
  "draw_frame plot_type kwargs current_data =
     (if plot_type = ''line'' then
        bind_err (dict_item current_data ''y'') (\<lambda>y.
        bind_err (py_len y) (\<lambda>n.
          Inr [Draw ''plot''
                 [case map_of current_data ''x'' of Some x \<Rightarrow> x | None \<Rightarrow> py_range n, y]
                 kwargs]))
      else if plot_type = ''scatter'' then
        (let scatter_kwargs =
               (case map_of current_data ''sizes'' of
                  Some sizes \<Rightarrow> dict_set ''s'' sizes kwargs
                | None \<Rightarrow> if map_of kwargs ''s'' = None then dict_set ''s'' (Num 50) kwargs else kwargs);
             scatter_kwargs =
               (case map_of current_data ''colors'' of
                  Some colors \<Rightarrow> dict_set ''c'' colors scatter_kwargs
                | None \<Rightarrow>
                    if map_of scatter_kwargs ''c'' = None \<and> map_of scatter_kwargs ''color'' = None
                    then dict_set ''c'' (PyStr ''blue'') scatter_kwargs else scatter_kwargs)
         in bind_err (dict_item current_data ''x'') (\<lambda>x.
            bind_err (dict_item current_data ''y'') (\<lambda>y.
              Inr [Draw ''scatter'' [x, y] scatter_kwargs])))
      else if plot_type = ''bar'' then
        bind_err (dict_item current_data ''heights'') (\<lambda>heights.
        bind_err (py_len heights) (\<lambda>n.
          (let x_pos = (case map_of current_data ''x'' of Some x \<Rightarrow> x | None \<Rightarrow> py_range n);
               bar_kwargs =
                 (case map_of current_data ''colors'' of
                    Some colors \<Rightarrow> dict_set ''color'' colors kwargs
                  | None \<Rightarrow>
                      if map_of kwargs ''color'' = None
                      then dict_set ''color'' (PyStr ''blue'') kwargs else kwargs)
           in Inr [Draw ''bar'' [x_pos, heights] bar_kwargs])))
      else Inr [])"

text \<open>\<^verbatim>\<open>animate\<close> of \<^verbatim>\<open>smooth_transition\<close> (lines 180 to 238).\<close>

definition animate ::
  "rgb_conv \<Rightarrow> attr \<Rightarrow> pydict \<Rightarrow> pydict \<Rightarrow> int \<Rightarrow> string \<Rightarrow> pydict \<Rightarrow> int \<Rightarrow>
     py_error + draw_call list" where
  "animate to_rgb easing_func from_data_norm to_data_norm n plot_type kwargs frame =
     bind_err (call easing_func (frame_progress n frame)) (\<lambda>eased_progress.
     bind_err (interpolate_data to_rgb from_data_norm to_data_norm eased_progress) (\<lambda>current_data.
       draw_frame plot_type kwargs current_data))"

text \<open>
  \<^verbatim>\<open>smooth_transition\<close> of \<^verbatim>\<open>transitions.py\<close> (lines 122 to 246). Nothing checks
  \<^verbatim>\<open>duration\<close> or \<^verbatim>\<open>fps\<close>; \<^verbatim>\<open>interval=1000/fps\<close> divides by \<^verbatim>\<open>fps\<close> before \<^verbatim>\<open>FuncAnimation\<close>
  is called. The axes object belongs to the host.
\<close>

definition smooth_transition ::
  "runtime_attrs \<Rightarrow> rgb_conv \<Rightarrow> array_conv \<Rightarrow> pyval \<Rightarrow> pyval \<Rightarrow> real \<Rightarrow> int \<Rightarrow> easing_arg \<Rightarrow>
     string \<Rightarrow> pydict \<Rightarrow> py_error + draw_call list animation" where
  "smooth_transition inherited to_rgb np_array from_data to_data duration fps easing plot_type kwargs =
     (let easing_func = get_easing_func inherited easing in
      bind_err (normalize_data np_array from_data plot_type) (\<lambda>from_data_norm.
      bind_err (normalize_data np_array to_data plot_type) (\<lambda>to_data_norm.
        (let n = num_frames duration fps in
         if fps = 0 then Inl ZeroDivisionError
         else FuncAnimation n (1000 / real_of_int fps)
                (animate to_rgb easing_func from_data_norm to_data_norm n plot_type kwargs)))))"

text \<open>
  \<^verbatim>\<open>smooth_transition\<close> of \<^verbatim>\<open>smooth_transitions.py\<close> (lines 61 to 232). The constructor
  draws the "from" state itself: \<^verbatim>\<open>ax.plot\<close>, \<^verbatim>\<open>ax.scatter\<close> or \<^verbatim>\<open>ax.bar\<close> on
  \<^verbatim>\<open>from_data.get('x', [])\<close> and \<^verbatim>\<open>from_data.get('y', [])\<close>. These functions belong to the host
  and raise when they cannot draw the two values against each other: they are the
  parameter \<open>plots\<close>, which gives the exception, or \<open>None\<close> when the host draws. An
  unsupported plot type raises \<^verbatim>\<open>ValueError\<close> at the same place. The axis limits that follow
  (lines 126 to 135) read \<^verbatim>\<open>to_data\<close> and are taken to succeed. Of \<^verbatim>\<open>animate\<close> the model keeps
  the eased progress (lines 138 to 143); the property updates that follow are calls of
  \<open>interpolate_values_st\<close> and \<open>interpolate_colors\<close> on the host's objects.
\<close>

type_synonym host_plot = "string \<Rightarrow> pyval \<Rightarrow> pyval \<Rightarrow> py_error option"

definition dict_get :: "pydict \<Rightarrow> string \<Rightarrow> pyval \<Rightarrow> pyval" where
  "dict_get d k dflt = (case map_of d k of None \<Rightarrow> dflt | Some v \<Rightarrow> v)"

definition animate_st :: "attr \<Rightarrow> int \<Rightarrow> int \<Rightarrow> py_error + real" where
  "animate_st easing_func total_frames frame =
     call easing_func (frame_progress_st total_frames frame)"

definition smooth_transition_st ::
  "host_plot \<Rightarrow> runtime_attrs \<Rightarrow> pydict \<Rightarrow> pydict \<Rightarrow> real \<Rightarrow> int \<Rightarrow> string \<Rightarrow> string \<Rightarrow>
     py_error + real animation" where
  "smooth_transition_st plots inherited from_data to_data duration fps easing plot_type =
     (let easing_func = getattr_EasingFunctions_st inherited easing;
          total_frames = num_frames duration fps
      in if plot_type = ''line'' \<or> plot_type = ''scatter'' \<or> plot_type = ''bar'' then
           (case plots plot_type (dict_get from_data ''x'' (PyList []))
                   (dict_get from_data ''y'' (PyList [])) of
              Some e \<Rightarrow> Inl e
            | None \<Rightarrow>
                if fps = 0 then Inl ZeroDivisionError
                else FuncAnimation total_frames (1000 / real_of_int fps)
                       (animate_st easing_func total_frames))
         else Inl ValueError)"

section \<open>Figure states and \<^verbatim>\<open>_render_interpolated_figure\<close>\<close>

text \<open>
  The dictionaries that \<^verbatim>\<open>_extract_figure_state\<close> builds (\<^verbatim>\<open>transitions.py\<close> lines 332 to
  399), one record for each kind, with the keys of the source as fields. The values are
  whatever the host's accessors return, so the fields are \<open>pyval\<close>s.
\<close>

record line_state =
  line_xdata :: pyval
  line_ydata :: pyval
  line_color :: pyval
  line_linewidth :: pyval
  line_linestyle :: pyval
  line_marker :: pyval
  line_markersize :: pyval

record collection_state =
  coll_type :: string
  coll_offsets :: pyval
  coll_sizes :: pyval
  coll_colors :: pyval

record patch_state =
  patch_type :: string
  patch_xy :: pyval
  patch_width :: pyval
  patch_height :: pyval
  patch_facecolor :: pyval
  patch_edgecolor :: pyval

record axes_state =
  ax_xlim :: pyval
  ax_ylim :: pyval
  ax_title :: pyval
  ax_xlabel :: pyval
  ax_ylabel :: pyval
  ax_facecolor :: pyval
  ax_lines :: "line_state list"
  ax_collections :: "collection_state list"
  ax_patches :: "patch_state list"

record figure_state =
  fig_axes :: "axes_state list"
  figure_props :: pyval

text \<open>
  What one frame hands to the host: for each axes the limits, labels and background it
  sets and, in the order of the calls, the lines it plots (\<^verbatim>\<open>ax.plot\<close>), the scatters
  (\<^verbatim>\<open>ax.scatter\<close>) and the rectangles (\<^verbatim>\<open>ax.add_patch\<close>). The host's calls are taken to
  succeed.
\<close>

datatype drawn_line =
  Line2D (dl_xdata: pyval) (dl_ydata: pyval) (dl_color: pyval) (dl_linewidth: pyval)
    (dl_linestyle: pyval) (dl_marker: pyval) (dl_markersize: pyval)

datatype drawn_scatter =
  PathCollection (ds_x: pyval) (ds_y: pyval) (ds_s: pyval) (ds_c: pyval)

datatype drawn_rect =
  Rectangle (dr_xy: pyval) (dr_width: pyval) (dr_height: pyval) (dr_facecolor: pyval)

record drawn_axes =
  da_xlim :: pyval
  da_ylim :: pyval
  da_title :: pyval
  da_xlabel :: pyval
  da_ylabel :: pyval
  da_facecolor :: pyval
  da_lines :: "drawn_line list"
  da_scatters :: "drawn_scatter list"
  da_rects :: "drawn_rect list"

record drawn_figure =
  df_facecolor :: pyval
  df_axes :: "drawn_axes list"

text \<open>\<^verbatim>\<open>v[key]\<close> with a string key, and the column \<^verbatim>\<open>v[:, c]\<close> of an array.\<close>

fun subscript :: "pyval \<Rightarrow> string \<Rightarrow> py_error + pyval" where
  "subscript (PyDict d) key = dict_item d key"
| "subscript (NdArray _) key = Inl IndexError"
| "subscript (NdArray2 _ _) key = Inl IndexError"
| "subscript _ key = Inl TypeError"

fun column :: "pyval \<Rightarrow> nat \<Rightarrow> py_error + pyval" where
  "column (NdArray2 k rs) c =
     (if c < k \<and> list_all (\<lambda>r. c < length r) rs then Inr (NdArray (map (\<lambda>r. r ! c) rs))
      else Inl IndexError)"
| "column (NdArray _) c = Inl IndexError"
| "column _ c = Inl TypeError"

text \<open>The bodies of the three loops (lines 443 to 456, 460 to 469, 473 to 484).\<close>

definition render_line :: "rgb_conv \<Rightarrow> line_state \<Rightarrow> line_state \<Rightarrow> real \<Rightarrow> py_error + drawn_line" where
  "render_line to_rgb from_line to_line progress =
     bind_err (interpolate_values to_rgb (line_xdata from_line) (line_xdata to_line) progress) (\<lambda>xdata.
     bind_err (interpolate_values to_rgb (line_ydata from_line) (line_ydata to_line) progress) (\<lambda>ydata.
     bind_err (interpolate_values to_rgb (line_color from_line) (line_color to_line) progress) (\<lambda>color.
     bind_err (interpolate_values to_rgb (line_linewidth from_line) (line_linewidth to_line) progress) (\<lambda>linewidth.
     bind_err (interpolate_values to_rgb (line_markersize from_line) (line_markersize to_line) progress) (\<lambda>markersize.
       Inr (Line2D xdata ydata color linewidth (line_linestyle from_line) (line_marker from_line)
              markersize))))))"

definition render_collection ::
  "rgb_conv \<Rightarrow> collection_state \<Rightarrow> collection_state \<Rightarrow> real \<Rightarrow> py_error + drawn_scatter list" where
  "render_collection to_rgb from_coll to_coll progress =
     (if coll_type from_coll = ''scatter'' \<and> coll_type to_coll = ''scatter'' then
        bind_err (interpolate_values to_rgb (coll_offsets from_coll) (coll_offsets to_coll) progress) (\<lambda>offsets.
        bind_err (interpolate_values to_rgb (coll_sizes from_coll) (coll_sizes to_coll) progress) (\<lambda>sizes.
        bind_err (interpolate_values to_rgb (coll_colors from_coll) (coll_colors to_coll) progress) (\<lambda>colors.
        bind_err (column offsets 0) (\<lambda>x.
        bind_err (column offsets 1) (\<lambda>y.
          Inr [PathCollection x y sizes colors])))))
      else Inr [])"

definition render_patch ::
  "rgb_conv \<Rightarrow> patch_state \<Rightarrow> patch_state \<Rightarrow> real \<Rightarrow> py_error + drawn_rect list" where
  "render_patch to_rgb from_patch to_patch progress =
     (if patch_type from_patch = ''rectangle'' \<and> patch_type to_patch = ''rectangle'' then
        bind_err (interpolate_values to_rgb (patch_xy from_patch) (patch_xy to_patch) progress) (\<lambda>xy.
        bind_err (interpolate_values to_rgb (patch_width from_patch) (patch_width to_patch) progress) (\<lambda>width.
        bind_err (interpolate_values to_rgb (patch_height from_patch) (patch_height to_patch) progress) (\<lambda>height.
        bind_err (interpolate_values to_rgb (patch_facecolor from_patch) (patch_facecolor to_patch) progress) (\<lambda>facecolor.
          Inr [Rectangle xy width height facecolor]))))
      else Inr [])"

text \<open>The body of the loop over the axes (lines 411 to 484). Each \<^verbatim>\<open>for j in range(n)\<close>
  reads both lists at \<open>j\<close>, with \<open>n\<close> the smaller of the two lengths.\<close>

definition render_axes :: "rgb_conv \<Rightarrow> axes_state \<Rightarrow> axes_state \<Rightarrow> real \<Rightarrow> py_error + drawn_axes" where
  "render_axes to_rgb from_ax_state to_ax_state progress =
     bind_err (interpolate_values to_rgb (ax_xlim from_ax_state) (ax_xlim to_ax_state) progress) (\<lambda>xlim.
     bind_err (interpolate_values to_rgb (ax_ylim from_ax_state) (ax_ylim to_ax_state) progress) (\<lambda>ylim.
     (let labels = (if progress < 0.5 then from_ax_state else to_ax_state) in
     bind_err (interpolate_values to_rgb (ax_facecolor from_ax_state) (ax_facecolor to_ax_state) progress) (\<lambda>facecolor.
     (let num_lines = min (length (ax_lines from_ax_state)) (length (ax_lines to_ax_state)) in
     bind_err (sequence_sum (map (\<lambda>j. render_line to_rgb (ax_lines from_ax_state ! j)
                                         (ax_lines to_ax_state ! j) progress) [0..<num_lines])) (\<lambda>lines.
     (let num_collections = min (length (ax_collections from_ax_state))
                                (length (ax_collections to_ax_state)) in
     bind_err (sequence_sum (map (\<lambda>j. render_collection to_rgb (ax_collections from_ax_state ! j)
                                         (ax_collections to_ax_state ! j) progress) [0..<num_collections])) (\<lambda>scatters.
     (let num_patches = min (length (ax_patches from_ax_state)) (length (ax_patches to_ax_state)) in
     bind_err (sequence_sum (map (\<lambda>j. render_patch to_rgb (ax_patches from_ax_state ! j)
                                         (ax_patches to_ax_state ! j) progress) [0..<num_patches])) (\<lambda>rects.
       Inr \<lparr>da_xlim = xlim, da_ylim = ylim,
            da_title = ax_title labels, da_xlabel = ax_xlabel labels, da_ylabel = ax_ylabel labels,
            da_facecolor = facecolor,
            da_lines = lines, da_scatters = concat scatters, da_rects = concat rects\<rparr>))))))))))"

text \<open>\<^verbatim>\<open>_render_interpolated_figure\<close> (lines 402 to 484).\<close>

definition render_interpolated_figure ::
  "rgb_conv \<Rightarrow> figure_state \<Rightarrow> figure_state \<Rightarrow> real \<Rightarrow> py_error + drawn_figure" where
  "render_interpolated_figure to_rgb from_state to_state progress =
     bind_err (interpolate_values to_rgb (figure_props from_state) (figure_props to_state) progress) (\<lambda>fig_props.
     bind_err (subscript fig_props ''facecolor'') (\<lambda>facecolor.
     (let num_axes = min (length (fig_axes from_state)) (length (fig_axes to_state)) in
     bind_err (sequence_sum (map (\<lambda>i. render_axes to_rgb (fig_axes from_state ! i)
                                         (fig_axes to_state ! i) progress) [0..<num_axes])) (\<lambda>axs.
       Inr \<lparr>df_facecolor = facecolor, df_axes = axs\<rparr>))))"

text \<open>
  \<^verbatim>\<open>transition_plot_state\<close> of \<^verbatim>\<open>transitions.py\<close> (lines 249 to 310), on the two states that
  \<^verbatim>\<open>_extract_figure_state\<close> has read from the host's figures.
\<close>

definition animate_figure ::
  "rgb_conv \<Rightarrow> attr \<Rightarrow> figure_state \<Rightarrow> figure_state \<Rightarrow> int \<Rightarrow> int \<Rightarrow> py_error + drawn_figure" where
  "animate_figure to_rgb easing_func from_states to_states n frame =
     bind_err (call easing_func (frame_progress n frame)) (\<lambda>eased_progress.
       render_interpolated_figure to_rgb from_states to_states eased_progress)"

definition transition_plot_state ::
  "runtime_attrs \<Rightarrow> rgb_conv \<Rightarrow> figure_state \<Rightarrow> figure_state \<Rightarrow> real \<Rightarrow> int \<Rightarrow> easing_arg \<Rightarrow>
     py_error + drawn_figure animation" where
  "transition_plot_state inherited to_rgb from_states to_states duration fps easing =
     (let easing_func = get_easing_func inherited easing;
          n = num_frames duration fps
      in if fps = 0 then Inl ZeroDivisionError
         else FuncAnimation n (1000 / real_of_int fps)
                (animate_figure to_rgb easing_func from_states to_states n))"

text \<open>
  \<^verbatim>\<open>transition_plot_state\<close> of \<^verbatim>\<open>smooth_transitions.py\<close> (lines 234 to 331) does not pair the
  lines of the two figures. Each frame plots every line of the first axes of \<^verbatim>\<open>fig_from\<close>
  with \<^verbatim>\<open>alpha = 1 - eased_progress\<close>, then every line of the first axes of \<^verbatim>\<open>fig_to\<close> with
  \<^verbatim>\<open>alpha = eased_progress\<close>, interpolates the axis limits and takes the labels of one
  side. The figures are given by the states that \<open>figure_state\<close> records.
\<close>

datatype faded_line =
  FadedLine (fd_xdata: pyval) (fd_ydata: pyval) (fd_color: pyval) (fd_alpha: real)
    (fd_linewidth: pyval)

record crossfade_frame =
  cf_lines :: "faded_line list"
  cf_xlim :: float_or_ndarray
  cf_ylim :: float_or_ndarray
  cf_xlabel :: pyval
  cf_ylabel :: pyval
  cf_title :: pyval

text \<open>\<^verbatim>\<open>np.array\<close> on the pair of floats that \<^verbatim>\<open>get_xlim\<close> returns; a value that is no number
  and no sequence of numbers fails in the subtraction that follows.\<close>

fun limits_array :: "pyval \<Rightarrow> py_error + float_or_ndarray" where
  "limits_array (Num x) = Inr (Float x)"
| "limits_array (NdArray xs) = Inr (Array xs)"
| "limits_array (PyTuple xs) =
     (if list_all is_number xs then Inr (Array (map num_of xs)) else Inl TypeError)"
| "limits_array (PyList xs) =
     (if list_all is_number xs then Inr (Array (map num_of xs)) else Inl TypeError)"
| "limits_array _ = Inl TypeError"

definition fade :: "real \<Rightarrow> line_state \<Rightarrow> faded_line" where
  "fade alpha line =
     FadedLine (line_xdata line) (line_ydata line) (line_color line) alpha (line_linewidth line)"

definition animate_crossfade ::
  "attr \<Rightarrow> axes_state \<Rightarrow> axes_state \<Rightarrow> int \<Rightarrow> int \<Rightarrow> py_error + crossfade_frame" where
  "animate_crossfade easing_func ax_from ax_to total_frames frame =
     (let progress = frame_progress_st total_frames frame in
      bind_err (call easing_func progress) (\<lambda>eased_progress.
      (let alpha_from = 1 - eased_progress;
           alpha_to = eased_progress;
           lines = map (fade alpha_from) (ax_lines ax_from) @ map (fade alpha_to) (ax_lines ax_to)
       in
      bind_err (limits_array (ax_xlim ax_from)) (\<lambda>xlim_from.
      bind_err (limits_array (ax_xlim ax_to)) (\<lambda>xlim_to.
      bind_err (limits_array (ax_ylim ax_from)) (\<lambda>ylim_from.
      bind_err (limits_array (ax_ylim ax_to)) (\<lambda>ylim_to.
      bind_err (interpolate_values_st xlim_from xlim_to eased_progress) (\<lambda>new_xlim.
      bind_err (interpolate_values_st ylim_from ylim_to eased_progress) (\<lambda>new_ylim.
      (let labels = (if progress < 0.5 then ax_from else ax_to) in
       Inr \<lparr>cf_lines = lines, cf_xlim = new_xlim, cf_ylim = new_ylim,
            cf_xlabel = ax_xlabel labels, cf_ylabel = ax_ylabel labels,
            cf_title = ax_title labels\<rparr>))))))))))"

definition transition_plot_state_st ::
  "runtime_attrs \<Rightarrow> figure_state \<Rightarrow> figure_state \<Rightarrow> real \<Rightarrow> int \<Rightarrow> string \<Rightarrow>
     py_error + crossfade_frame animation" where
  "transition_plot_state_st inherited fig_from fig_to duration fps easing =
     (let easing_func = getattr_EasingFunctions_st inherited easing;
          total_frames = num_frames duration fps
      in if fig_axes fig_from = [] \<or> fig_axes fig_to = [] then Inl ValueError
         else if fps = 0 then Inl ZeroDivisionError
         else FuncAnimation total_frames (1000 / real_of_int fps)
                (animate_crossfade easing_func (hd (fig_axes fig_from)) (hd (fig_axes fig_to))
                   total_frames))"

section \<open>Notions of the specification and sample parameters\<close>

text \<open>
  The value kinds of the specification, read on \<open>pyval\<close>. A Categorical value is an opaque
  token that cannot be blended: a string that the colour table rejects, \<^verbatim>\<open>None\<close>, or a
  dictionary.
\<close>

fun categorical :: "rgb_conv \<Rightarrow> pyval \<Rightarrow> bool" where
  "categorical to_rgb (PyStr s) = (to_rgb s = None)"
| "categorical to_rgb PyNone = True"
| "categorical to_rgb (PyDict _) = True"
| "categorical to_rgb _ = False"

text \<open>A value in which no string, at any depth of lists and tuples, is accepted by the
  colour table.\<close>

fun no_color_string :: "rgb_conv \<Rightarrow> pyval \<Rightarrow> bool" where
  "no_color_string to_rgb (PyStr s) = (to_rgb s = None)"
| "no_color_string to_rgb (PyList xs) = list_all (no_color_string to_rgb) xs"
| "no_color_string to_rgb (PyTuple xs) = list_all (no_color_string to_rgb) xs"
| "no_color_string to_rgb _ = True"

text \<open>The same value with every tuple, at any depth, written as a list.\<close>

fun as_lists :: "pyval \<Rightarrow> pyval" where
  "as_lists (PyList xs) = PyList (map as_lists xs)"
| "as_lists (PyTuple xs) = PyList (map as_lists xs)"
| "as_lists v = v"


text \<open>
  Sample values of the parameters, for closed instances. The colour tables hold
  matplotlib's channels of \<^verbatim>\<open>'red'\<close> and \<^verbatim>\<open>'blue'\<close> and reject every other string, as
  matplotlib rejects \<^verbatim>\<open>'solid'\<close> and \<^verbatim>\<open>'dashed'\<close>; \<open>to_rgba_sample\<close> also takes a tuple of
  four floats as it is. \<open>inherited_sample\<close> holds two of the attributes that the runtime
  gives every class object, neither of them callable. \<open>np_array_sample\<close> converts a flat
  sequence of numbers and keeps an array.
\<close>

definition to_rgb_sample :: rgb_conv where
  "to_rgb_sample s =
     (if s = ''red'' then Some (1, 0, 0) else if s = ''blue'' then Some (0, 0, 1) else None)"

fun to_rgba_sample :: rgba_conv where
  "to_rgba_sample (PyStr s) =
     (if s = ''red'' then Some (1, 0, 0, 1) else if s = ''blue'' then Some (0, 0, 1, 1) else None)"
| "to_rgba_sample (PyTuple [Num r, Num g, Num b, Num a]) = Some (r, g, b, a)"
| "to_rgba_sample _ = None"

definition inherited_sample :: runtime_attrs where
  "inherited_sample name =
     (if name = ''__module__'' \<or> name = ''__dict__'' then Some NotCallable else None)"

fun np_array_sample :: array_conv where
  "np_array_sample (NdArray xs) = Inr (NdArray xs)"
| "np_array_sample (NdArray2 k rs) = Inr (NdArray2 k rs)"
| "np_array_sample (PyList xs) =
     (if list_all is_number xs then Inr (NdArray (map num_of xs)) else Inl ValueError)"
| "np_array_sample (PyTuple xs) =
     (if list_all is_number xs then Inr (NdArray (map num_of xs)) else Inl ValueError)"
| "np_array_sample _ = Inl ValueError"

text \<open>
  The figure states that \<^verbatim>\<open>_extract_figure_state\<close> builds: it gives every collection the
  type \<^verbatim>\<open>'scatter'\<close> and every patch the type \<^verbatim>\<open>'rectangle'\<close> (lines 375 to 394).
\<close>

definition extracted :: "axes_state \<Rightarrow> bool" where
  "extracted a =
     (list_all (\<lambda>c. coll_type c = ''scatter'') (ax_collections a) \<and>
      list_all (\<lambda>q. patch_type q = ''rectangle'') (ax_patches a))"

text \<open>
  What it is for a drawn element to be the interpolation of a pair of elements at the
  progress \<open>e\<close>: each of its interpolable properties is the value of
  \<open>interpolate_values\<close> on the two properties of the pair, and the line style and marker
  are those of the "from" line.
\<close>

definition interpolated_line ::
  "rgb_conv \<Rightarrow> line_state \<Rightarrow> line_state \<Rightarrow> real \<Rightarrow> drawn_line \<Rightarrow> bool" where
  "interpolated_line to_rgb f t e d =
     (interpolate_values to_rgb (line_xdata f) (line_xdata t) e = Inr (dl_xdata d) \<and>
      interpolate_values to_rgb (line_ydata f) (line_ydata t) e = Inr (dl_ydata d) \<and>
      interpolate_values to_rgb (line_color f) (line_color t) e = Inr (dl_color d) \<and>
      interpolate_values to_rgb (line_linewidth f) (line_linewidth t) e = Inr (dl_linewidth d) \<and>
      interpolate_values to_rgb (line_markersize f) (line_markersize t) e = Inr (dl_markersize d) \<and>
      dl_linestyle d = line_linestyle f \<and> dl_marker d = line_marker f)"

definition interpolated_scatter ::
  "rgb_conv \<Rightarrow> collection_state \<Rightarrow> collection_state \<Rightarrow> real \<Rightarrow> drawn_scatter \<Rightarrow> bool" where
  "interpolated_scatter to_rgb f t e d =
     (\<exists>offsets.
        interpolate_values to_rgb (coll_offsets f) (coll_offsets t) e = Inr offsets \<and>
        column offsets 0 = Inr (ds_x d) \<and> column offsets 1 = Inr (ds_y d) \<and>
        interpolate_values to_rgb (coll_sizes f) (coll_sizes t) e = Inr (ds_s d) \<and>
        interpolate_values to_rgb (coll_colors f) (coll_colors t) e = Inr (ds_c d))"

definition interpolated_rect ::
  "rgb_conv \<Rightarrow> patch_state \<Rightarrow> patch_state \<Rightarrow> real \<Rightarrow> drawn_rect \<Rightarrow> bool" where
  "interpolated_rect to_rgb f t e d =
     (interpolate_values to_rgb (patch_xy f) (patch_xy t) e = Inr (dr_xy d) \<and>
      interpolate_values to_rgb (patch_width f) (patch_width t) e = Inr (dr_width d) \<and>
      interpolate_values to_rgb (patch_height f) (patch_height t) e = Inr (dr_height d) \<and>
      interpolate_values to_rgb (patch_facecolor f) (patch_facecolor t) e = Inr (dr_facecolor d))"

text \<open>The axes state \<open>a\<close> cut down to the elements that have a partner at the same
  position in \<open>b\<close>.\<close>

definition paired :: "axes_state \<Rightarrow> axes_state \<Rightarrow> axes_state" where
  "paired a b =
     a\<lparr>ax_lines := take (min (length (ax_lines a)) (length (ax_lines b))) (ax_lines a),
       ax_collections :=
         take (min (length (ax_collections a)) (length (ax_collections b))) (ax_collections a),
       ax_patches := take (min (length (ax_patches a)) (length (ax_patches b))) (ax_patches a)\<rparr>"

text \<open>
  Two more sample parameters. \<open>plots_sample\<close> is a host that draws two values of equal
  length and raises \<^verbatim>\<open>ValueError\<close> otherwise. \<open>libm_pow_sample\<close> is a \<^verbatim>\<open>pow\<close> that rounds the
  exact power correctly except at one argument, where it has the value that the C
  library returns for \<^verbatim>\<open>pow(0.46376811594202905, 2)\<close>: \<^verbatim>\<open>0.2150808653644193\<close>, one unit in the
  last place above the correctly rounded square.
\<close>

definition plots_sample :: host_plot where
  "plots_sample plot_type x y =
     (case (py_len x, py_len y) of
        (Inr n, Inr m) \<Rightarrow> if n = m then None else Some ValueError
      | _ \<Rightarrow> Some ValueError)"

definition libm_pow_sample :: libm where
  "libm_pow_sample x y =
     (if x = 2088625914142839 / 2 ^ 52 \<and> y = 2 then 7749104840877781 / 2 ^ 55
      else fl (x powr y))"

text \<open>A sample pair of figure states: one axes each, three lines against two.\<close>

definition sample_line :: "real \<Rightarrow> string \<Rightarrow> line_state" where
  "sample_line y c =
     \<lparr>line_xdata = NdArray [0, 1], line_ydata = NdArray [y, y], line_color = PyStr c,
      line_linewidth = Num 1.5, line_linestyle = PyStr ''-'', line_marker = PyStr ''None'',
      line_markersize = Num 6\<rparr>"

definition sample_axes :: "line_state list \<Rightarrow> axes_state" where
  "sample_axes ls =
     \<lparr>ax_xlim = PyTuple [Num 0, Num 1], ax_ylim = PyTuple [Num 0, Num 4],
      ax_title = PyStr ''title'', ax_xlabel = PyStr ''x'', ax_ylabel = PyStr ''y'',
      ax_facecolor = PyTuple [Num 1, Num 1, Num 1, Num 1],
      ax_lines = ls, ax_collections = [], ax_patches = []\<rparr>"

definition sample_figure :: "line_state list \<Rightarrow> figure_state" where
  "sample_figure ls =
     \<lparr>fig_axes = [sample_axes ls],
      figure_props = PyDict [(''facecolor'', PyTuple [Num 1, Num 1, Num 1, Num 1]),
                             (''size'', NdArray [6.4, 4.8])]\<rparr>"

section \<open>Floating-point rounding\<close>

lemma round_even_of_int: "round_even (real_of_int k) = k"
  by (simp add: round_even_def)

lemma round_even_nonneg: "0 \<le> y \<Longrightarrow> 0 \<le> round_even y"
  by (auto simp: round_even_def Let_def)

lemma fl_nonneg: "0 \<le> x \<Longrightarrow> 0 \<le> fl x"
  by (auto simp: fl_def Let_def intro!: mult_nonneg_nonneg round_even_nonneg)

lemma powr_neg_nat: "(2::real) powr (- real n) = 1 / 2 ^ n"
  by (simp add: powr_minus powr_realpow inverse_eq_divide)

lemma binade:
  assumes "2 powr real_of_int e \<le> \<bar>x\<bar>" and "\<bar>x\<bar> < 2 powr (real_of_int e + 1)"
  shows "\<lfloor>log 2 \<bar>x\<bar>\<rfloor> = e"
proof (rule floor_unique)
  have pos: "0 < \<bar>x\<bar>"
    using assms(1) by (smt (verit) powr_gt_zero)
  show "real_of_int e \<le> log 2 \<bar>x\<bar>"
    using assms(1) pos by (simp add: le_log_iff)
  show "log 2 \<bar>x\<bar> < real_of_int e + 1"
    using assms(2) pos by (simp add: log_less_iff)
qed

text \<open>The rounding of a number below 1 in magnitude, and of one from 1 on, by the binade
  it lies in.\<close>

lemma fl_below_one:
  assumes "1 / 2 ^ (k + 1) \<le> \<bar>x\<bar>" and "\<bar>x\<bar> < 1 / 2 ^ k"
  shows "fl x = real_of_int (round_even (x * 2 ^ (k + 53))) / 2 ^ (k + 53)"
proof -
  have a: "real_of_int (- int (k + 1)) = - real (k + 1)"
    and b: "real_of_int (- int (k + 1)) + 1 = - real k"
    and c: "real_of_int (- int (k + 1)) - 52 = - real (k + 53)"
    by simp_all
  have "2 powr real_of_int (- int (k + 1)) \<le> \<bar>x\<bar>"
    unfolding a powr_neg_nat by (rule assms(1))
  moreover have "\<bar>x\<bar> < 2 powr (real_of_int (- int (k + 1)) + 1)"
    unfolding b powr_neg_nat by (rule assms(2))
  ultimately have e: "\<lfloor>log 2 \<bar>x\<bar>\<rfloor> = - int (k + 1)"
    by (rule binade)
  have u: "2 powr (real_of_int \<lfloor>log 2 \<bar>x\<bar>\<rfloor> - 52) = 1 / 2 ^ (k + 53)"
    unfolding e c powr_neg_nat ..
  have "0 < \<bar>x\<bar>"
    using assms(1) by (smt (verit) divide_pos_pos zero_less_power)
  then have "x \<noteq> 0"
    by simp
  then show ?thesis
    unfolding fl_def Let_def u by simp
qed

lemma fl_from_one:
  assumes "2 ^ a \<le> \<bar>x\<bar>" and "\<bar>x\<bar> < 2 ^ (a + 1)" and "a \<le> 52"
  shows "fl x = real_of_int (round_even (x * 2 ^ (52 - a))) / 2 ^ (52 - a)"
proof -
  have a: "2 powr real_of_int (int a) = 2 ^ a"
    by (simp add: powr_realpow)
  have b: "2 powr (real_of_int (int a) + 1) = 2 ^ (a + 1)"
    by (simp add: powr_realpow powr_add)
  have c: "real_of_int (int a) - 52 = - real (52 - a)"
    using assms(3) by simp
  have "2 powr real_of_int (int a) \<le> \<bar>x\<bar>"
    unfolding a by (rule assms(1))
  moreover have "\<bar>x\<bar> < 2 powr (real_of_int (int a) + 1)"
    unfolding b by (rule assms(2))
  ultimately have e: "\<lfloor>log 2 \<bar>x\<bar>\<rfloor> = int a"
    by (rule binade)
  have u: "2 powr (real_of_int \<lfloor>log 2 \<bar>x\<bar>\<rfloor> - 52) = 1 / 2 ^ (52 - a)"
    unfolding e c powr_neg_nat ..
  have "0 < \<bar>x\<bar>"
    using assms(1) by (smt (verit) zero_less_power)
  then have "x \<noteq> 0"
    by simp
  then show ?thesis
    unfolding fl_def Let_def u by simp
qed

text \<open>Frame counts of the examples: the products are floats, so the rounding keeps them;
  the float nearest to 0.29, times 100, rounds to a float below 29.\<close>

lemma num_frames_examples:
  "num_frames 2 30 = 60" "num_frames 1 30 = 30" "num_frames 0 30 = 0"
  "num_frames (1 / 16) 16 = 1" "num_frames (1 / 64) 30 = 0" "num_frames (- 1 / 64) (- 128) = 2"
proof -
  have a: "fl 60 = 60"
    using fl_from_one [of 5 60] by (simp add: round_even_def)
  show "num_frames 2 30 = 60"
    by (simp add: num_frames_def py_int_def a)
  have b: "fl 30 = 30"
    using fl_from_one [of 4 30] by (simp add: round_even_def)
  show "num_frames 1 30 = 30"
    by (simp add: num_frames_def py_int_def b)
  show "num_frames 0 30 = 0"
    by (simp add: num_frames_def py_int_def fl_def)
  have c: "fl 1 = 1"
    using fl_from_one [of 0 1] by (simp add: round_even_def)
  show "num_frames (1 / 16) 16 = 1"
    by (simp add: num_frames_def py_int_def c)
  have "fl (15 / 32) = real_of_int (round_even (15 / 32 * 2 ^ 54)) / 2 ^ 54"
    using fl_below_one [of 1 "15 / 32"] by simp
  then have d: "fl (15 / 32) = 15 / 32"
    by (simp add: round_even_def)
  show "num_frames (1 / 64) 30 = 0"
    by (simp add: num_frames_def py_int_def d)
  have e: "fl 2 = 2"
    using fl_from_one [of 1 2] by (simp add: round_even_def)
  show "num_frames (- 1 / 64) (- 128) = 2"
    by (simp add: num_frames_def py_int_def e)
qed

lemma num_frames_rounded_product:
  "fl 0.29 = 5224175567749775 / 2 ^ 54" "num_frames (fl 0.29) 100 = 28"
proof -
  have "fl 0.29 = real_of_int (round_even (0.29 * 2 ^ 54)) / 2 ^ 54"
    using fl_below_one [of 1 "0.29"] by simp
  then show a: "fl 0.29 = 5224175567749775 / 2 ^ 54"
    by (simp add: round_even_def Let_def)
  have "fl (5224175567749775 / 2 ^ 54 * 100) =
      real_of_int (round_even (5224175567749775 / 2 ^ 54 * 100 * 2 ^ 48)) / 2 ^ 48"
    using fl_from_one [of 4 "5224175567749775 / 2 ^ 54 * 100"] by simp
  then have b: "fl (5224175567749775 / 2 ^ 54 * 100) = 8162774324609023 / 2 ^ 48"
    by (simp add: round_even_def Let_def)
  have "py_int (8162774324609023 / 2 ^ 48) = 28"
    by (simp add: py_int_def)
  then show "num_frames (fl 0.29) 100 = 28"
    unfolding num_frames_def a by (simp only: of_int_numeral b)
qed


section \<open>The two easing libraries\<close>

lemma quad_forms: "1 - (- 2 * t + 2) ^ 2 / 2 = 1 - 2 * (1 - t) * (1 - (t::real))"
proof -
  have "(- 2 * t + 2) ^ 2 = 4 * ((1 - t) * (1 - t))"
    by (simp add: power2_eq_square algebra_simps)
  then show ?thesis by simp
qed

lemma cubic_forms: "1 - (- 2 * t + 2) ^ 3 / 2 = 1 - 4 * (1 - (t::real)) ^ 3"
proof -
  have "(- 2 * t + 2) ^ 3 = 8 * (1 - t) ^ 3"
    by (simp add: power3_eq_cube algebra_simps)
  then show ?thesis by simp
qed

text \<open>
  Claim C8, as the code has it. Read as functions on the real numbers, the easing
  function of \<^verbatim>\<open>transitions.py\<close> and that of \<^verbatim>\<open>smooth_transitions.py\<close> are equal at every \<open>t\<close>, so
  at every \<open>t\<close> of \<open>[0, 1]\<close>, on each of the seven names that both classes define (\<^verbatim>\<open>linear\<close>,
  \<^verbatim>\<open>ease_in_quad\<close>, \<^verbatim>\<open>ease_out_quad\<close>, \<^verbatim>\<open>ease_in_out_quad\<close>, \<^verbatim>\<open>ease_in_cubic\<close>,
  \<^verbatim>\<open>ease_out_cubic\<close>, \<^verbatim>\<open>ease_in_out_cubic\<close>); and \<open>1 - pow(-2t + 2, 3) / 2\<close> equals
  \<open>1 - 4 (1 - t)\<^sup>3\<close> for all real \<open>t\<close>: the two cubic ease-in-out formulas define the same
  real function. Nothing is said of the floats that the two files return.
\<close>

theorem easing_implementations_agree:
  "linear_easing t = linear_st t \<and>
   ease_in_quad t = ease_in_quad_st t \<and>
   ease_out_quad t = ease_out_quad_st t \<and>
   ease_in_out_quad t = ease_in_out_quad_st t \<and>
   ease_in_cubic t = ease_in_cubic_st t \<and>
   ease_out_cubic t = ease_out_cubic_st t \<and>
   ease_in_out_cubic t = ease_in_out_cubic_st t \<and>
   1 - (- 2 * t + 2) ^ 3 / 2 = 1 - 4 * (1 - t) ^ 3"
  unfolding linear_easing_def linear_st_def ease_in_quad_def ease_in_quad_st_def
    ease_out_quad_def ease_out_quad_st_def ease_in_out_quad_def ease_in_out_quad_st_def
    ease_in_cubic_def ease_in_cubic_st_def ease_out_cubic_def ease_out_cubic_st_def
    ease_in_out_cubic_def ease_in_out_cubic_st_def
  using quad_forms [of t] cubic_forms [of t] by simp

text \<open>
  Claim C8 as the specification states it has the two files return equal values. On
  floats they do not: at the progress of frame 53 of 70, the float nearest to \<open>53 / 69\<close>,
  \<^verbatim>\<open>ease_in_out_quad\<close> of \<^verbatim>\<open>transitions.py\<close> returns \<^verbatim>\<open>0.8924595673177903\<close> and that of
  \<^verbatim>\<open>smooth_transitions.py\<close> returns \<^verbatim>\<open>0.8924595673177904\<close>, with the C library's \<^verbatim>\<open>pow\<close> as
  \<open>libm_pow_sample\<close> records it.
\<close>

theorem easing_floats_differ_counterexample:
  "fl (53 / 69) = 6918573340598153 / 2 ^ 53 \<and>
   ease_in_out_quad_float libm_pow_sample (fl (53 / 69)) = 8038561149631269 / 2 ^ 53 \<and>
   ease_in_out_quad_st_float (fl (53 / 69)) = 4019280574815635 / 2 ^ 52 \<and>
   ease_in_out_quad_float libm_pow_sample (fl (53 / 69)) \<noteq>
     ease_in_out_quad_st_float (fl (53 / 69))"
proof -
  have t: "fl (53 / 69) = 6918573340598153 / 2 ^ 53"
    using fl_below_one [of 0 "53 / 69"] by (simp add: round_even_def Let_def)
  have a1: "fl (- 2 * (6918573340598153 / 2 ^ 53)) = - 6918573340598153 / 2 ^ 52"
    using fl_from_one [of 0 "- 2 * (6918573340598153 / 2 ^ 53)"]
    by (simp add: round_even_def Let_def)
  have a2: "fl (- 6918573340598153 / 2 ^ 52 + 2) = 2088625914142839 / 2 ^ 52"
    using fl_below_one [of 1 "- 6918573340598153 / 2 ^ 52 + 2"]
    by (simp add: round_even_def Let_def)
  have a3: "libm_pow_sample (2088625914142839 / 2 ^ 52) 2 = 7749104840877781 / 2 ^ 55"
    by (simp add: libm_pow_sample_def)
  have a4: "fl (7749104840877781 / 2 ^ 55 / 2) = 7749104840877781 / 2 ^ 56"
    using fl_below_one [of 3 "7749104840877781 / 2 ^ 55 / 2"]
    by (simp add: round_even_def Let_def)
  have a5: "fl (1 - 7749104840877781 / 2 ^ 56) = 8038561149631269 / 2 ^ 53"
    using fl_below_one [of 0 "1 - 7749104840877781 / 2 ^ 56"]
    by (simp add: round_even_def Let_def)
  have tr: "ease_in_out_quad_float libm_pow_sample (6918573340598153 / 2 ^ 53) =
      8038561149631269 / 2 ^ 53"
    unfolding ease_in_out_quad_float_def by (simp only: a1 a2 a3 a4 a5) simp
  have b1: "fl (1 - 6918573340598153 / 2 ^ 53) = 2088625914142839 / 2 ^ 53"
    using fl_below_one [of 2 "1 - 6918573340598153 / 2 ^ 53"]
    by (simp add: round_even_def Let_def)
  have b2: "fl (2 * (2088625914142839 / 2 ^ 53)) = 2088625914142839 / 2 ^ 52"
    using fl_below_one [of 1 "2 * (2088625914142839 / 2 ^ 53)"]
    by (simp add: round_even_def Let_def)
  have b3: "fl (2088625914142839 / 2 ^ 52 * (2088625914142839 / 2 ^ 53)) =
      1937276210219445 / 2 ^ 54"
    using fl_below_one [of 3 "2088625914142839 / 2 ^ 52 * (2088625914142839 / 2 ^ 53)"]
    by (simp add: round_even_def Let_def)
  have b4: "fl (1 - 1937276210219445 / 2 ^ 54) = 4019280574815635 / 2 ^ 52"
    using fl_below_one [of 0 "1 - 1937276210219445 / 2 ^ 54"]
    by (simp add: round_even_def Let_def)
  have st: "ease_in_out_quad_st_float (6918573340598153 / 2 ^ 53) = 4019280574815635 / 2 ^ 52"
    unfolding ease_in_out_quad_st_float_def by (simp only: b1 b2 b3 b4) simp
  have ne: "(8038561149631269 / 2 ^ 53 :: real) \<noteq> 4019280574815635 / 2 ^ 52"
    by simp
  show ?thesis
    unfolding t tr st using ne by (intro conjI refl)
qed

subsection \<open>Monotonicity\<close>

lemma mono_ease_in_quad: "0 \<le> s \<Longrightarrow> s \<le> t \<Longrightarrow> ease_in_quad s \<le> ease_in_quad t"
  unfolding ease_in_quad_def by (simp add: mult_mono)

lemma mono_ease_out_quad: "s \<le> t \<Longrightarrow> t \<le> 1 \<Longrightarrow> ease_out_quad s \<le> ease_out_quad t"
  unfolding ease_out_quad_def by (simp add: mult_mono)

lemma mono_ease_in_cubic: "s \<le> t \<Longrightarrow> ease_in_cubic s \<le> ease_in_cubic t"
proof -
  assume "s \<le> t"
  then have "s ^ 3 \<le> t ^ 3" by (rule power_mono_odd[rotated]) simp
  then show ?thesis by (simp add: ease_in_cubic_def power3_eq_cube mult.assoc)
qed

lemma mono_ease_out_cubic: "s \<le> t \<Longrightarrow> ease_out_cubic s \<le> ease_out_cubic t"
proof -
  assume "s \<le> t"
  then have "(1 - t) ^ 3 \<le> (1 - s) ^ 3" by (intro power_mono_odd) simp_all
  then show ?thesis by (simp add: ease_out_cubic_def)
qed

lemma mono_ease_in_out_quad:
  assumes "0 \<le> s" "s \<le> t" "t \<le> 1"
  shows "ease_in_out_quad s \<le> ease_in_out_quad t"
proof -
  have lo: "2 * x * x \<le> 2 * y * y" if "0 \<le> x" "x \<le> y" for x y :: real
    using that mult_mono[of x y x y] by simp
  have hi: "1 - 2 * (1 - x) * (1 - x) \<le> 1 - 2 * (1 - y) * (1 - y)"
    if "x \<le> y" "y \<le> 1" for x y :: real
  proof -
    have "(1 - y) * (1 - y) \<le> (1 - x) * (1 - x)"
      using that by (intro mult_mono) simp_all
    then show ?thesis unfolding mult.assoc by linarith
  qed
  have a: "2 * x * x \<le> 1 / 2" if "0 \<le> x" "x < 1 / 2" for x :: real
    using that lo[of x "1 / 2"] by simp
  have b: "1 / 2 \<le> 1 - 2 * (1 - y) * (1 - y)" if "1 / 2 \<le> y" "y \<le> 1" for y :: real
    using that hi[of "1 / 2" y] by simp
  show ?thesis
    unfolding ease_in_out_quad_def quad_forms
    using assms lo[of s t] hi[of s t] a[of s] b[of t] by auto
qed

lemma mono_ease_in_out_cubic:
  assumes "0 \<le> s" "s \<le> t" "t \<le> 1"
  shows "ease_in_out_cubic s \<le> ease_in_out_cubic t"
proof -
  have lo: "4 * x * x * x \<le> 4 * y * y * y" if "x \<le> y" for x y :: real
    using mono_ease_in_cubic[OF that] by (simp add: ease_in_cubic_def)
  have hi: "1 - 4 * (1 - x) ^ 3 \<le> 1 - 4 * (1 - y) ^ 3" if "x \<le> y" for x y :: real
    using mono_ease_out_cubic[OF that] by (simp add: ease_out_cubic_def)
  have a: "4 * x * x * x \<le> 1 / 2" if "x < 1 / 2" for x :: real
    using that lo[of x "1 / 2"] by simp
  have b: "1 / 2 \<le> 1 - 4 * (1 - y) ^ 3" if "1 / 2 \<le> y" for y :: real
    using that hi[of "1 / 2" y] by (simp add: power3_eq_cube)
  show ?thesis
    unfolding ease_in_out_cubic_def cubic_forms
    using assms lo[of s t] hi[of s t] a[of s] b[of t] by auto
qed

lemma mono_ease_in_sine:
  assumes "0 \<le> s" "s \<le> t" "t \<le> 1"
  shows "ease_in_sine s \<le> ease_in_sine t"
proof -
  have "cos ((t * pi) / 2) \<le> cos ((s * pi) / 2)"
  proof (rule cos_monotone_0_pi_le)
    show "0 \<le> s * pi / 2" using assms by simp
    show "s * pi / 2 \<le> t * pi / 2" using assms by (simp add: mult_right_mono)
    have "t * pi \<le> 1 * pi" using assms by (intro mult_right_mono) simp_all
    then show "t * pi / 2 \<le> pi" using pi_ge_zero by linarith
  qed
  then show ?thesis by (simp add: ease_in_sine_def)
qed

lemma mono_ease_out_sine:
  assumes "0 \<le> s" "s \<le> t" "t \<le> 1"
  shows "ease_out_sine s \<le> ease_out_sine t"
  unfolding ease_out_sine_def
proof (rule sin_monotone_2pi_le)
  have "0 \<le> s * pi" using assms by simp
  then show "- (pi / 2) \<le> s * pi / 2" using pi_ge_zero by linarith
  show "s * pi / 2 \<le> t * pi / 2" using assms by (simp add: mult_right_mono)
  have "t * pi \<le> 1 * pi" using assms by (intro mult_right_mono) simp_all
  then show "t * pi / 2 \<le> pi / 2" by simp
qed

lemma mono_ease_in_out_sine:
  assumes "0 \<le> s" "s \<le> t" "t \<le> 1"
  shows "ease_in_out_sine s \<le> ease_in_out_sine t"
proof -
  have "cos (pi * t) \<le> cos (pi * s)"
  proof (rule cos_monotone_0_pi_le)
    show "0 \<le> pi * s" using assms by simp
    show "pi * s \<le> pi * t" using assms by (simp add: mult_left_mono)
    have "pi * t \<le> pi * 1" using assms by (intro mult_left_mono) simp_all
    then show "pi * t \<le> pi" by simp
  qed
  then show ?thesis by (simp add: ease_in_out_sine_def)
qed

lemma st_functions:
  "linear_st = linear_easing" "ease_in_quad_st = ease_in_quad" "ease_out_quad_st = ease_out_quad"
  "ease_in_out_quad_st = ease_in_out_quad" "ease_in_cubic_st = ease_in_cubic"
  "ease_out_cubic_st = ease_out_cubic" "ease_in_out_cubic_st = ease_in_out_cubic"
proof -
  show "linear_st = linear_easing" by (rule ext) (simp add: linear_st_def linear_easing_def)
  show "ease_in_quad_st = ease_in_quad" by (rule ext) (simp add: ease_in_quad_st_def ease_in_quad_def)
  show "ease_out_quad_st = ease_out_quad"
    by (rule ext) (simp add: ease_out_quad_st_def ease_out_quad_def)
  show "ease_in_out_quad_st = ease_in_out_quad"
    by (rule ext) (simp only: ease_in_out_quad_st_def ease_in_out_quad_def quad_forms)
  show "ease_in_cubic_st = ease_in_cubic"
    by (rule ext) (simp add: ease_in_cubic_st_def ease_in_cubic_def)
  show "ease_out_cubic_st = ease_out_cubic"
    by (rule ext) (simp add: ease_out_cubic_st_def ease_out_cubic_def)
  show "ease_in_out_cubic_st = ease_in_out_cubic"
    by (rule ext) (simp only: ease_in_out_cubic_st_def ease_in_out_cubic_def cubic_forms)
qed

lemma easing_mono_on_unit:
  assumes "(name, f) \<in> set EasingFunctions \<union> set EasingFunctions_st"
    and "0 \<le> s" and "s \<le> t" and "t \<le> 1"
  shows "f s \<le> f t"
proof -
  from assms(1) have "f \<in> {linear_easing, ease_in_quad, ease_out_quad, ease_in_out_quad,
      ease_in_cubic, ease_out_cubic, ease_in_out_cubic, ease_in_sine, ease_out_sine,
      ease_in_out_sine}"
    unfolding EasingFunctions_def EasingFunctions_st_def st_functions by auto
  then consider "f = linear_easing" | "f = ease_in_quad" | "f = ease_out_quad"
    | "f = ease_in_out_quad" | "f = ease_in_cubic" | "f = ease_out_cubic"
    | "f = ease_in_out_cubic" | "f = ease_in_sine" | "f = ease_out_sine"
    | "f = ease_in_out_sine"
    by blast
  then show ?thesis
  proof cases
    case 1 then show ?thesis using assms by (simp add: linear_easing_def)
  next
    case 2 then show ?thesis using assms by (simp add: mono_ease_in_quad)
  next
    case 3 then show ?thesis using assms by (simp add: mono_ease_out_quad)
  next
    case 4 then show ?thesis using assms by (simp add: mono_ease_in_out_quad)
  next
    case 5 then show ?thesis using assms by (simp add: mono_ease_in_cubic)
  next
    case 6 then show ?thesis using assms by (simp add: mono_ease_out_cubic)
  next
    case 7 then show ?thesis using assms by (simp add: mono_ease_in_out_cubic)
  next
    case 8 then show ?thesis using assms by (simp add: mono_ease_in_sine)
  next
    case 9 then show ?thesis using assms by (simp add: mono_ease_out_sine)
  next
    case 10 then show ?thesis using assms by (simp add: mono_ease_in_out_sine)
  qed
qed

lemma frame_progress_unit:
  "0 \<le> frame_progress n i \<and> frame_progress n i \<le> 1 \<and>
   0 \<le> frame_progress_st n i \<and> frame_progress_st n i \<le> 1"
  by (simp add: frame_progress_def frame_progress_st_def)

lemma frame_progress_mono:
  assumes "i \<le> j"
  shows "frame_progress n i \<le> frame_progress n j \<and> frame_progress_st n i \<le> frame_progress_st n j"
proof (cases "1 < n")
  case True
  then have "0 < real_of_int (n - 1)" by simp
  with assms have "real_of_int i / real_of_int (n - 1) \<le> real_of_int j / real_of_int (n - 1)"
    by (simp add: divide_right_mono)
  with True assms show ?thesis
    by (auto simp: frame_progress_def frame_progress_st_def min_def max_def)
next
  case False
  then show ?thesis
    by (simp add: frame_progress_def frame_progress_st_def)
qed

text \<open>
  Claim C10. Every function of the two \<^verbatim>\<open>EasingFunctions\<close> classes is monotone
  nondecreasing on \<open>[0, 1]\<close>: for \<open>0 \<le> s \<le> t \<le> 1\<close> its value at \<open>s\<close> is at most its value at
  \<open>t\<close>. So the eased progress of a later frame of an animation is never below that of an
  earlier frame. The values are real numbers.
\<close>

theorem builtin_easing_monotone:
  assumes "(name, f) \<in> set EasingFunctions \<union> set EasingFunctions_st"
  shows "(0 \<le> s \<and> s \<le> t \<and> t \<le> 1 \<longrightarrow> f s \<le> f t) \<and>
    (i \<le> j \<longrightarrow>
       f (frame_progress n i) \<le> f (frame_progress n j) \<and>
       f (frame_progress_st n i) \<le> f (frame_progress_st n j))"
proof (intro conjI impI)
  assume "0 \<le> s \<and> s \<le> t \<and> t \<le> 1"
  then show "f s \<le> f t"
    using easing_mono_on_unit [OF assms] by simp
next
  assume "i \<le> j"
  then have m: "frame_progress n i \<le> frame_progress n j"
    "frame_progress_st n i \<le> frame_progress_st n j"
    using frame_progress_mono by simp_all
  show "f (frame_progress n i) \<le> f (frame_progress n j)"
    using easing_mono_on_unit [OF assms _ m(1)] frame_progress_unit by simp
  show "f (frame_progress_st n i) \<le> f (frame_progress_st n j)"
    using easing_mono_on_unit [OF assms _ m(2)] frame_progress_unit by simp
qed

theorem builtin_easing_monotone_witness:
  "(''ease_in_out_cubic'', ease_in_out_cubic_st) \<in> set EasingFunctions \<union> set EasingFunctions_st \<and>
   (0::real) \<le> 1 / 4 \<and> (1 / 4 :: real) \<le> 3 / 4 \<and> (3 / 4 :: real) \<le> 1 \<and>
   ease_in_out_cubic_st (1 / 4) \<le> ease_in_out_cubic_st (3 / 4) \<and>
   (10::int) \<le> 11 \<and>
   ease_in_out_cubic_st (frame_progress 60 10) \<le> ease_in_out_cubic_st (frame_progress 60 11)"
proof -
  have m: "(''ease_in_out_cubic'', ease_in_out_cubic_st) \<in> set EasingFunctions \<union> set EasingFunctions_st"
    by (simp add: EasingFunctions_st_def)
  have "ease_in_out_cubic_st (1 / 4) \<le> ease_in_out_cubic_st (3 / 4)"
    using builtin_easing_monotone [OF m, of "1 / 4" "3 / 4"] by simp
  moreover have "ease_in_out_cubic_st (frame_progress 60 10) \<le> ease_in_out_cubic_st (frame_progress 60 11)"
    using builtin_easing_monotone [OF m, of _ _ 10 11 60] by simp
  ultimately show ?thesis
    using m by simp
qed

section \<open>The value interpolator\<close>

subsection \<open>The branches of \<^verbatim>\<open>interpolate_values\<close>\<close>

lemma interpolate_values_Num:
  "interpolate_values to_rgb (Num a) (Num b) p = Inr (Num (a + (b - a) * p))"
  by (simp add: interpolate_values.simps)

lemma interpolate_values_ndarray:
  "is_ndarray a \<Longrightarrow> is_ndarray b \<Longrightarrow> interpolate_values to_rgb a b p = np_interpolate a b p"
  by (cases a; cases b) (simp_all add: interpolate_values.simps)

lemma interpolate_values_seq:
  "is_sequence a \<Longrightarrow> is_sequence b \<Longrightarrow> length (items a) = length (items b) \<Longrightarrow>
   interpolate_values to_rgb a b p =
     map_sum id PyList
       (sequence_sum (map (\<lambda>(s, e). interpolate_values to_rgb s e p) (zip (items a) (items b))))"
  by (cases a; cases b) (simp_all add: interpolate_values.simps)


lemma interpolate_values_default:
  "categorical to_rgb a \<Longrightarrow> categorical to_rgb b \<Longrightarrow>
   interpolate_values to_rgb a b p = threshold_switch a b p"
  by (cases a; cases b) (simp_all add: interpolate_values.simps)

lemma interpolate_values_str_fail:
  "to_rgb s = None \<or> to_rgb s' = None \<Longrightarrow>
   interpolate_values to_rgb (PyStr s) (PyStr s') p = threshold_switch (PyStr s) (PyStr s') p"
  by (auto simp add: interpolate_values.simps split: option.splits)

lemma sequence_sum_map_Inr:
  "(\<And>x. x \<in> set xs \<Longrightarrow> f x = Inr (g x)) \<Longrightarrow> sequence_sum (map f xs) = Inr (map g xs)"
  by (induction xs) simp_all

lemma sequence_sum_length: "sequence_sum rs = Inr vs \<Longrightarrow> length vs = length rs"
proof (induction rs arbitrary: vs)
  case Nil
  then show ?case by simp
next
  case (Cons r rs)
  then show ?case by (cases r) (auto split: sum.splits)
qed

lemma sequence_sum_nth:
  "sequence_sum rs = Inr vs \<Longrightarrow> j < length rs \<Longrightarrow> rs ! j = Inr (vs ! j)"
proof (induction rs arbitrary: vs j)
  case Nil
  then show ?case by simp
next
  case (Cons r rs)
  then show ?case by (cases r; cases j) (auto split: sum.splits)
qed

lemma interpolate_values_numbers:
  assumes "is_sequence v" "is_sequence w" "items v = map Num xs" "items w = map Num ys"
    and "length xs = length ys"
  shows "interpolate_values to_rgb v w p =
    Inr (PyList (map Num (map2 (\<lambda>a b. a + (b - a) * p) xs ys)))"
proof -
  have "sequence_sum (map (\<lambda>(s, e). interpolate_values to_rgb s e p) (zip (map Num xs) (map Num ys)))
      = Inr (map (\<lambda>(s, e). Num (num_of s + (num_of e - num_of s) * p)) (zip (map Num xs) (map Num ys)))"
    by (rule sequence_sum_map_Inr) (auto simp: interpolate_values_Num dest!: set_zip_leftD set_zip_rightD
        simp: in_set_zip)
  moreover have "map (\<lambda>(s, e). Num (num_of s + (num_of e - num_of s) * p)) (zip (map Num xs) (map Num ys))
      = map Num (map2 (\<lambda>a b. a + (b - a) * p) xs ys)"
    by (simp add: zip_map_map split_def)
  ultimately show ?thesis
    using assms by (simp add: interpolate_values_seq)
qed



text \<open>
  Claim C2. For Categorical values \<open>a\<close> and \<open>b\<close> (strings that are not colours, \<^verbatim>\<open>None\<close>,
  dictionaries) \<^verbatim>\<open>interpolate_values(a, b, progress)\<close> is \<open>a\<close> for every progress strictly
  below 0.5 and \<open>b\<close> for every progress from 0.5 on. The instance of the claim,
  \<^verbatim>\<open>"solid"\<close> against \<^verbatim>\<open>"dashed"\<close> at 0.49 and at 0.5, is the witness.
\<close>

theorem categorical_hard_switch:
  assumes "categorical to_rgb a" and "categorical to_rgb b"
  shows "interpolate_values to_rgb a b progress = Inr (if progress < 0.5 then a else b)"
  using assms by (simp add: interpolate_values_default threshold_switch_def)

theorem categorical_hard_switch_witness:
  "categorical to_rgb_sample (PyStr ''solid'') \<and> categorical to_rgb_sample (PyStr ''dashed'') \<and>
   interpolate_values to_rgb_sample (PyStr ''solid'') (PyStr ''dashed'') 0.49 = Inr (PyStr ''solid'') \<and>
   interpolate_values to_rgb_sample (PyStr ''solid'') (PyStr ''dashed'') 0.5 = Inr (PyStr ''dashed'')"
proof -
  have a: "categorical to_rgb_sample (PyStr ''solid'')"
    by (simp add: to_rgb_sample_def)
  have b: "categorical to_rgb_sample (PyStr ''dashed'')"
    by (simp add: to_rgb_sample_def)
  show ?thesis
    using a b categorical_hard_switch [OF a b, of "0.49"] categorical_hard_switch [OF a b, of "0.5"]
    by simp
qed




subsection \<open>Colours\<close>

lemma interpolate_colors_ok:
  "to_rgba c1 = Some (r1, g1, b1, a1) \<Longrightarrow> to_rgba c2 = Some (r2, g2, b2, a2) \<Longrightarrow>
   interpolate_colors to_rgba c1 c2 p =
     Inr [r1 + (r2 - r1) * p, g1 + (g2 - g1) * p, b1 + (b2 - b1) * p, a1 + (a2 - a1) * p]"
proof -
  have "[0..<4] = [0, 1, 2, 3::nat]"
    by (simp add: upt_rec)
  then show "to_rgba c1 = Some (r1, g1, b1, a1) \<Longrightarrow> to_rgba c2 = Some (r2, g2, b2, a2) \<Longrightarrow>
      interpolate_colors to_rgba c1 c2 p =
        Inr [r1 + (r2 - r1) * p, g1 + (g2 - g1) * p, b1 + (b2 - b1) * p, a1 + (a2 - a1) * p]"
    by (simp add: interpolate_colors_def)
qed

lemma interpolate_colors_fail:
  "to_rgba c1 = None \<or> to_rgba c2 = None \<Longrightarrow> interpolate_colors to_rgba c1 c2 p = Inl ValueError"
  by (auto simp: interpolate_colors_def split: option.splits)

lemma interpolate_values_rgba_tuple:
  "interpolate_values to_rgb (PyTuple [Num r1, Num g1, Num b1, Num a1])
     (PyTuple [Num r2, Num g2, Num b2, Num a2]) p =
   Inr (PyList [Num (r1 + (r2 - r1) * p), Num (g1 + (g2 - g1) * p), Num (b1 + (b2 - b1) * p),
     Num (a1 + (a2 - a1) * p)])"
  using interpolate_values_numbers [of "PyTuple [Num r1, Num g1, Num b1, Num a1]"
      "PyTuple [Num r2, Num g2, Num b2, Num a2]" "[r1, g1, b1, a1]" "[r2, g2, b2, a2]" to_rgb p]
  by simp

text \<open>
  Claim C3, as the code has it. Two colours given as RGBA tuples are blended channel by
  channel, the alpha channel included, by \<^verbatim>\<open>interpolate_values\<close> of \<^verbatim>\<open>transitions.py\<close>; so are
  two colours of any form that \<^verbatim>\<open>to_rgba\<close> accepts by \<^verbatim>\<open>interpolate_colors\<close> of
  \<^verbatim>\<open>smooth_transitions.py\<close>. When the conversion of either of two strings fails,
  \<^verbatim>\<open>interpolate_values\<close> returns the "from" value while progress is below 0.5 and the "to"
  value from 0.5 on, and \<^verbatim>\<open>interpolate_colors\<close> lets the \<^verbatim>\<open>ValueError\<close> of the conversion
  out.
\<close>

theorem color_blend_and_conversion_failure:
  "interpolate_values to_rgb (PyTuple [Num r1, Num g1, Num b1, Num a1])
     (PyTuple [Num r2, Num g2, Num b2, Num a2]) p =
     Inr (PyList [Num (r1 + (r2 - r1) * p), Num (g1 + (g2 - g1) * p), Num (b1 + (b2 - b1) * p),
       Num (a1 + (a2 - a1) * p)]) \<and>
   (to_rgba c1 = Some (r1, g1, b1, a1) \<and> to_rgba c2 = Some (r2, g2, b2, a2) \<longrightarrow>
      interpolate_colors to_rgba c1 c2 p =
        Inr [r1 + (r2 - r1) * p, g1 + (g2 - g1) * p, b1 + (b2 - b1) * p, a1 + (a2 - a1) * p]) \<and>
   (to_rgb s1 = None \<or> to_rgb s2 = None \<longrightarrow>
      interpolate_values to_rgb (PyStr s1) (PyStr s2) p =
        Inr (if p < 0.5 then PyStr s1 else PyStr s2)) \<and>
   (to_rgba d1 = None \<or> to_rgba d2 = None \<longrightarrow>
      interpolate_colors to_rgba d1 d2 p = Inl ValueError)"
  by (simp add: interpolate_values_rgba_tuple interpolate_colors_ok interpolate_colors_fail
      interpolate_values_str_fail threshold_switch_def)

theorem color_blend_and_conversion_failure_witness:
  "interpolate_values to_rgb_sample (PyTuple [Num 1, Num 0, Num 0, Num 1])
     (PyTuple [Num 0, Num 0, Num 1, Num 1]) 0.5 = Inr (PyList [Num 0.5, Num 0, Num 0.5, Num 1]) \<and>
   to_rgba_sample (PyStr ''red'') = Some (1, 0, 0, 1) \<and>
   to_rgba_sample (PyTuple [Num 0, Num 0, Num 1, Num 1]) = Some (0, 0, 1, 1) \<and>
   interpolate_colors to_rgba_sample (PyStr ''red'') (PyTuple [Num 0, Num 0, Num 1, Num 1]) 0.5 =
     Inr [0.5, 0, 0.5, 1] \<and>
   to_rgb_sample ''no such colour'' = None \<and>
   interpolate_values to_rgb_sample (PyStr ''no such colour'') (PyStr ''blue'') 0.5 =
     Inr (PyStr ''blue'') \<and>
   to_rgba_sample (PyStr ''no such colour'') = None \<and>
   interpolate_colors to_rgba_sample (PyStr ''no such colour'') (PyStr ''blue'') 0.5 = Inl ValueError"
  using color_blend_and_conversion_failure [where to_rgb = to_rgb_sample and to_rgba = to_rgba_sample
      and ?r1.0 = 1 and ?g1.0 = 0 and ?b1.0 = 0 and ?a1.0 = 1
      and ?r2.0 = 0 and ?g2.0 = 0 and ?b2.0 = 1 and ?a2.0 = 1 and p = "0.5"
      and ?c1.0 = "PyStr ''red''" and ?c2.0 = "PyTuple [Num 0, Num 0, Num 1, Num 1]"
      and ?s1.0 = "''no such colour''" and ?s2.0 = "''blue''"
      and ?d1.0 = "PyStr ''no such colour''" and ?d2.0 = "PyStr ''blue''"]
  by (simp add: to_rgb_sample_def)

text \<open>
  Claim C3 as the specification states it promises the "from" value at every progress
  when a conversion fails. A string that is no colour against \<^verbatim>\<open>'blue'\<close> at progress 0.75
  gives the "to" value.
\<close>

theorem conversion_failure_counterexample:
  "to_rgb_sample ''no such colour'' = None \<and>
   interpolate_values to_rgb_sample (PyStr ''no such colour'') (PyStr ''blue'') 0.75 =
     Inr (PyStr ''blue'')"
  by (simp add: to_rgb_sample_def interpolate_values_str_fail threshold_switch_def)

subsection \<open>A value against itself\<close>

lemma map2_blend_same: "map2 (\<lambda>s e. blend s e p) xs xs = xs"
  by (induction xs) (simp_all add: blend_def)

lemma np_blend_same: "np_blend xs xs p = Inr xs"
  by (simp add: np_blend_def map2_blend_same)

lemma np_blend_rows_same: "np_blend_rows rs rs p = Inr rs"
proof -
  have "map2 (\<lambda>r r'. np_blend r r' p) rs rs = map Inr rs"
    by (induction rs) (simp_all add: np_blend_same)
  moreover have "sequence_sum (map Inr rs) = Inr rs"
    by (rule sequence_sum_map_Inr [where g = "\<lambda>r. r", simplified]) simp
  ultimately show ?thesis
    by (simp add: np_blend_rows_def)
qed

lemma zip_same_map: "map (\<lambda>(s, e). f s e) (zip xs xs) = map (\<lambda>x. f x x) xs"
  by (induction xs) simp_all

lemma interpolate_values_same:
  "no_color_string to_rgb a \<Longrightarrow> interpolate_values to_rgb a a p = Inr (as_lists a)"
proof (induction a)
  case (Num x)
  show ?case by (simp add: interpolate_values_Num)
next
  case (NdArray xs)
  show ?case by (simp add: interpolate_values_ndarray np_blend_same)
next
  case (NdArray2 k rs)
  show ?case by (simp add: interpolate_values_ndarray np_blend2_def np_blend_rows_same)
next
  case (PyList xs)
  then have "\<And>x. x \<in> set xs \<Longrightarrow> interpolate_values to_rgb x x p = Inr (as_lists x)"
    by (simp add: list_all_iff)
  then have "sequence_sum (map (\<lambda>x. interpolate_values to_rgb x x p) xs) = Inr (map as_lists xs)"
    by (rule sequence_sum_map_Inr)
  then show ?case
    by (simp add: interpolate_values_seq zip_same_map)
next
  case (PyTuple xs)
  then have "\<And>x. x \<in> set xs \<Longrightarrow> interpolate_values to_rgb x x p = Inr (as_lists x)"
    by (simp add: list_all_iff)
  then have "sequence_sum (map (\<lambda>x. interpolate_values to_rgb x x p) xs) = Inr (map as_lists xs)"
    by (rule sequence_sum_map_Inr)
  then show ?case
    by (simp add: interpolate_values_seq zip_same_map)
next
  case (PyStr s)
  then show ?case
    by (simp add: interpolate_values_str_fail threshold_switch_def)
next
  case (PyDict d)
  show ?case by (simp add: interpolate_values_default threshold_switch_def)
next
  case PyNone
  show ?case by (simp add: interpolate_values_default threshold_switch_def)
qed

lemma interpolate_values_st_same: "interpolate_values_st v v p = Inr v"
  by (cases v) (simp_all add: np_blend_same)

text \<open>
  Claim C9, as the code has it. For every value \<open>a\<close> in which no string is a colour of the
  colour table (every number, numpy array and Categorical value, and every list or tuple
  of such values) and every progress \<open>p\<close>, \<^verbatim>\<open>interpolate_values(a, a, p)\<close> of
  \<^verbatim>\<open>transitions.py\<close> returns \<open>a\<close>, a tuple coming back as the list of the same elements. In
  \<^verbatim>\<open>smooth_transitions.py\<close>, \<^verbatim>\<open>interpolate_values(v, v, p)\<close> returns \<open>v\<close>, and
  \<^verbatim>\<open>interpolate_colors(c, c, p)\<close> returns the four channels of \<open>c\<close>.
\<close>

theorem identity_law:
  "(no_color_string to_rgb a \<longrightarrow> interpolate_values to_rgb a a p = Inr (as_lists a)) \<and>
   interpolate_values_st v v p = Inr v \<and>
   (to_rgba c = Some (r, g, b, al) \<longrightarrow> interpolate_colors to_rgba c c p = Inr [r, g, b, al])"
  by (simp add: interpolate_values_same interpolate_values_st_same interpolate_colors_ok)

theorem identity_law_witness:
  "no_color_string to_rgb_sample
     (PyList [Num 3, NdArray [1, 2], PyTuple [Num 0, Num 1], PyStr ''dashed'', PyNone]) \<and>
   interpolate_values to_rgb_sample
     (PyList [Num 3, NdArray [1, 2], PyTuple [Num 0, Num 1], PyStr ''dashed'', PyNone])
     (PyList [Num 3, NdArray [1, 2], PyTuple [Num 0, Num 1], PyStr ''dashed'', PyNone]) 0.3 =
     Inr (PyList [Num 3, NdArray [1, 2], PyList [Num 0, Num 1], PyStr ''dashed'', PyNone]) \<and>
   interpolate_values_st (Array [1, 2]) (Array [1, 2]) 0.3 = Inr (Array [1, 2]) \<and>
   to_rgba_sample (PyStr ''red'') = Some (1, 0, 0, 1) \<and>
   interpolate_colors to_rgba_sample (PyStr ''red'') (PyStr ''red'') 0.3 = Inr [1, 0, 0, 1]"
  using identity_law [where to_rgb = to_rgb_sample and to_rgba = to_rgba_sample and p = "0.3"
      and a = "PyList [Num 3, NdArray [1, 2], PyTuple [Num 0, Num 1], PyStr ''dashed'', PyNone]"
      and v = "Array [1, 2]" and c = "PyStr ''red''" and r = 1 and g = 0 and b = 0 and al = 1]
  by (simp add: to_rgb_sample_def)

text \<open>
  Claim C9 as the specification states it covers colours. The colour \<^verbatim>\<open>'red'\<close> against
  itself does not come back as \<^verbatim>\<open>'red'\<close>: \<^verbatim>\<open>interpolate_values\<close> returns the list of the
  three channels that \<^verbatim>\<open>to_rgb\<close> gives.
\<close>

theorem identity_law_counterexample:
  "interpolate_values to_rgb_sample (PyStr ''red'') (PyStr ''red'') 0.5 =
     Inr (PyList [Num 1, Num 0, Num 0]) \<and>
   interpolate_values to_rgb_sample (PyStr ''red'') (PyStr ''red'') 0.5 \<noteq> Inr (PyStr ''red'')"
proof -
  have "interpolate_values to_rgb_sample (PyTuple [Num 1, Num 0, Num 0]) (PyTuple [Num 1, Num 0, Num 0]) 0.5
      = Inr (PyList [Num 1, Num 0, Num 0])"
    using interpolate_values_numbers [of "PyTuple [Num 1, Num 0, Num 0]"
        "PyTuple [Num 1, Num 0, Num 0]" "[1, 0, 0]" "[1, 0, 0]" to_rgb_sample "0.5"]
    by simp
  then have "interpolate_values to_rgb_sample (PyStr ''red'') (PyStr ''red'') 0.5 =
      Inr (PyList [Num 1, Num 0, Num 0])"
    by (subst interpolate_values.simps) (simp add: to_rgb_sample_def)
  then show ?thesis by simp
qed

section \<open>The frame schedule\<close>

lemma py_int_nonneg: "0 \<le> x \<Longrightarrow> py_int x = \<lfloor>x\<rfloor>"
  by (simp add: py_int_def)

lemma num_frames_nonneg:
  assumes "0 \<le> d * real_of_int r"
  shows "num_frames d r = \<lfloor>fl (d * real_of_int r)\<rfloor>" and "0 \<le> num_frames d r"
proof -
  have "0 \<le> fl (d * real_of_int r)"
    using assms by (rule fl_nonneg)
  then show "num_frames d r = \<lfloor>fl (d * real_of_int r)\<rfloor>" and "0 \<le> num_frames d r"
    by (simp_all add: num_frames_def py_int_nonneg)
qed

lemma length_frame_indices: "length (frame_indices n) = nat n"
  by (simp add: frame_indices_def)

lemma set_frame_indices: "set (frame_indices n) = {0..n - 1}"
  by (simp add: frame_indices_def)

lemma nth_frame_indices: "k < nat n \<Longrightarrow> frame_indices n ! k = int k"
  by (simp add: frame_indices_def)

lemma frame_progress_in_range:
  assumes "1 < n" "0 \<le> i" "i \<le> n - 1"
  shows "frame_progress n i = real_of_int i / real_of_int (n - 1)"
    and "frame_progress_st n i = real_of_int i / real_of_int (n - 1)"
    and "0 \<le> real_of_int i / real_of_int (n - 1)"
    and "real_of_int i / real_of_int (n - 1) \<le> 1"
proof -
  from assms have pos: "0 < real_of_int (n - 1)" by simp
  from assms show lo: "0 \<le> real_of_int i / real_of_int (n - 1)"
    by simp
  from assms pos show hi: "real_of_int i / real_of_int (n - 1) \<le> 1"
    by (simp add: divide_le_eq_1)
  from lo hi assms show "frame_progress n i = real_of_int i / real_of_int (n - 1)"
    by (simp add: frame_progress_def)
  from lo hi assms show "frame_progress_st n i = real_of_int i / real_of_int (n - 1)"
    by (simp add: frame_progress_st_def)
qed

lemma frame_progress_single: "n \<le> 1 \<Longrightarrow> frame_progress n i = 1 \<and> frame_progress_st n i = 1"
  by (simp add: frame_progress_def frame_progress_st_def)

lemma delivered_progress:
  assumes "1 < n"
  shows "map (frame_progress n) (frame_indices n) =
      map (\<lambda>i. real_of_int i / real_of_int (n - 1)) [0..n - 1]"
    and "map (frame_progress_st n) (frame_indices n) =
      map (\<lambda>i. real_of_int i / real_of_int (n - 1)) [0..n - 1]"
    and "\<forall>p \<in> set (map (frame_progress n) (frame_indices n)). 0 \<le> p \<and> p \<le> 1"
    and "map (frame_progress n) (frame_indices n) ! 0 = 0"
    and "map (frame_progress n) (frame_indices n) ! (nat n - 1) = 1"
proof -
  show a: "map (frame_progress n) (frame_indices n) =
      map (\<lambda>i. real_of_int i / real_of_int (n - 1)) [0..n - 1]"
    unfolding frame_indices_def
    by (rule map_cong [OF refl]) (simp add: frame_progress_in_range [OF assms])
  show "map (frame_progress_st n) (frame_indices n) =
      map (\<lambda>i. real_of_int i / real_of_int (n - 1)) [0..n - 1]"
    unfolding frame_indices_def
    by (rule map_cong [OF refl]) (simp add: frame_progress_in_range [OF assms])
  show "\<forall>p \<in> set (map (frame_progress n) (frame_indices n)). 0 \<le> p \<and> p \<le> 1"
    using frame_progress_in_range [OF assms] by (auto simp: set_frame_indices)
  have "0 < nat n" "nat n - 1 < nat n"
    using assms by simp_all
  then show "map (frame_progress n) (frame_indices n) ! 0 = 0"
    and "map (frame_progress n) (frame_indices n) ! (nat n - 1) = 1"
    using assms frame_progress_in_range [OF assms, of 0]
      frame_progress_in_range [OF assms, of "n - 1"]
    by (simp_all add: length_frame_indices nth_frame_indices)
qed

text \<open>
  Claim C4, as the code has it. For a transition with duration \<open>d > 0\<close> and frame rate
  \<open>r > 0\<close> the number of frames \<open>n\<close> is the floor of the float product \<open>d * r\<close>, and \<^verbatim>\<open>animate\<close> is
  called with the indices \<open>0, \<dots>, n - 1\<close>, in this order. When \<open>n > 1\<close>, the frame of index \<open>i\<close>
  is delivered at progress \<open>i / (n - 1)\<close>, which lies in \<open>[0, 1]\<close>: the first at 0 and the last
  at 1. When \<open>n = 1\<close>, the one frame is delivered at progress 1. When \<open>n = 0\<close>, no frame is
  delivered. Duration 2.0 at frame rate 30 gives 60 frames. Both files compute the same.
\<close>

theorem frame_count_and_progress:
  assumes "0 < d" and "0 < r" and "n = num_frames d r"
  shows "n = \<lfloor>fl (d * real_of_int r)\<rfloor> \<and> 0 \<le> n \<and>
    frame_indices n = [0..n - 1] \<and> length (frame_indices n) = nat n \<and>
    (1 < n \<longrightarrow>
       map (frame_progress n) (frame_indices n) =
         map (\<lambda>i. real_of_int i / real_of_int (n - 1)) [0..n - 1] \<and>
       map (frame_progress_st n) (frame_indices n) =
         map (\<lambda>i. real_of_int i / real_of_int (n - 1)) [0..n - 1] \<and>
       (\<forall>p \<in> set (map (frame_progress n) (frame_indices n)). 0 \<le> p \<and> p \<le> 1) \<and>
       map (frame_progress n) (frame_indices n) ! 0 = 0 \<and>
       map (frame_progress n) (frame_indices n) ! (nat n - 1) = 1) \<and>
    (n = 1 \<longrightarrow>
       map (frame_progress n) (frame_indices n) = [1] \<and>
       map (frame_progress_st n) (frame_indices n) = [1]) \<and>
    (n = 0 \<longrightarrow>
       map (frame_progress n) (frame_indices n) = [] \<and>
       map (frame_progress_st n) (frame_indices n) = []) \<and>
    num_frames 2.0 30 = 60"
proof -
  from assms have "0 \<le> d * real_of_int r" by simp
  then have n: "n = \<lfloor>fl (d * real_of_int r)\<rfloor>" "0 \<le> n"
    using num_frames_nonneg assms(3) by simp_all
  have i: "frame_indices n = [0..n - 1]" "length (frame_indices n) = nat n"
    by (simp_all add: frame_indices_def)
  have many: "map (frame_progress n) (frame_indices n) =
         map (\<lambda>i. real_of_int i / real_of_int (n - 1)) [0..n - 1] \<and>
       map (frame_progress_st n) (frame_indices n) =
         map (\<lambda>i. real_of_int i / real_of_int (n - 1)) [0..n - 1] \<and>
       (\<forall>p \<in> set (map (frame_progress n) (frame_indices n)). 0 \<le> p \<and> p \<le> 1) \<and>
       map (frame_progress n) (frame_indices n) ! 0 = 0 \<and>
       map (frame_progress n) (frame_indices n) ! (nat n - 1) = 1" if "1 < n"
    by (intro conjI delivered_progress that)
  have one: "map (frame_progress n) (frame_indices n) = [1] \<and>
       map (frame_progress_st n) (frame_indices n) = [1]" if "n = 1"
    using that by (simp add: frame_indices_def frame_progress_def frame_progress_st_def)
  have zero: "map (frame_progress n) (frame_indices n) = [] \<and>
       map (frame_progress_st n) (frame_indices n) = []" if "n = 0"
    using that by (simp add: frame_indices_def)
  have sixty: "num_frames 2.0 30 = 60"
    using num_frames_examples(1) by simp
  show ?thesis
    using n i many one zero sixty by blast
qed

theorem frame_count_and_progress_witness:
  "(0::real) < 2.0 \<and> (0::int) < 30 \<and> num_frames 2.0 30 = 60 \<and>
   length (frame_indices 60) = 60 \<and>
   map (frame_progress 60) (frame_indices 60) ! 0 = 0 \<and>
   map (frame_progress 60) (frame_indices 60) ! 59 = 1 \<and>
   (0::real) < 1 / 16 \<and> (0::int) < 16 \<and> num_frames (1 / 16) 16 = 1 \<and>
   map (frame_progress 1) (frame_indices 1) = [1]"
proof -
  have a: "(0::real) < 2.0" and b: "(0::int) < 30" and c: "(0::real) < 1 / 16"
    and d: "(0::int) < 16"
    by simp_all
  have n: "60 = num_frames 2.0 30" and m: "1 = num_frames (1 / 16) 16"
    using num_frames_examples by simp_all
  have "length (frame_indices 60) = nat 60"
    using frame_count_and_progress [OF a b n] by blast
  then have len: "length (frame_indices 60) = 60"
    by simp
  have "(1::int) < 60"
    by simp
  with frame_count_and_progress [OF a b n]
  have "map (frame_progress 60) (frame_indices 60) ! 0 = 0 \<and>
      map (frame_progress 60) (frame_indices 60) ! (nat 60 - 1) = 1"
    by blast
  then have ends: "map (frame_progress 60) (frame_indices 60) ! 0 = 0 \<and>
      map (frame_progress 60) (frame_indices 60) ! 59 = 1"
    by simp
  have one: "map (frame_progress 1) (frame_indices 1) = [1]"
    using frame_count_and_progress [OF c d m] by blast
  from a b c d n [symmetric] m [symmetric] len ends one show ?thesis
    by blast
qed

text \<open>
  Claim C4 as the specification states it has a single frame at progress 1.0 whenever the
  count is at most 1. With duration \<open>1 / 64\<close> at 30 frames per second the count is 0, and
  \<^verbatim>\<open>animate\<close> is not called at all: no frame is delivered.
\<close>

theorem zero_frames_counterexample:
  "num_frames (1 / 64) 30 = 0 \<and>
   frame_indices (num_frames (1 / 64) 30) = [] \<and>
   map (frame_progress (num_frames (1 / 64) 30)) (frame_indices (num_frames (1 / 64) 30)) = []"
  using num_frames_examples(5) by (simp add: frame_indices_def)

section \<open>Construction\<close>







section \<open>Easing by name\<close>

lemma getattr_builtin:
  "map_of EasingFunctions name = Some f \<Longrightarrow>
   getattr_EasingFunctions inherited name = Callable (\<lambda>t. Inr (f t))"
  by (simp add: getattr_EasingFunctions_def)

text \<open>
  A name that is no attribute of the class object (none of the static methods, not
  \<^verbatim>\<open>__doc__\<close>, nothing the runtime adds) gives the linear easing: the eased progress of
  every frame is its progress.
\<close>

lemma getattr_unknown_name:
  assumes "map_of EasingFunctions name = None" and "name \<noteq> ''__doc__''"
    and "inherited name = None"
  shows "getattr_EasingFunctions inherited name = Callable (\<lambda>t. Inr (linear_easing t))"
    and "call (getattr_EasingFunctions inherited name) (frame_progress n frame) =
      Inr (frame_progress n frame)"
  using assms by (simp_all add: getattr_EasingFunctions_def linear_easing_def)

lemma getattr_st_unknown_name:
  assumes "map_of EasingFunctions_st name = None" and "name \<noteq> ''__doc__''"
    and "inherited name = None"
  shows "getattr_EasingFunctions_st inherited name = Callable (\<lambda>t. Inr (linear_st t))"
    and "animate_st (getattr_EasingFunctions_st inherited name) n frame =
      Inr (frame_progress_st n frame)"
  using assms by (simp_all add: getattr_EasingFunctions_st_def linear_st_def animate_st_def)

lemma map_of_EasingFunctions_doc:
  "map_of EasingFunctions ''__doc__'' = None" "map_of EasingFunctions_st ''__doc__'' = None"
  by (simp_all add: EasingFunctions_def EasingFunctions_st_def)

text \<open>
  Claim C7 at the name \<^verbatim>\<open>'__doc__'\<close>, which denotes no easing function. \<^verbatim>\<open>getattr\<close> finds the
  docstring of the class, not the default: the constructor of either file returns an
  animation of 30 frames for one second at 30 frames per second (that of
  \<^verbatim>\<open>smooth_transitions.py\<close> on data with \<^verbatim>\<open>'x'\<close> and \<^verbatim>\<open>'y'\<close> of equal length, which the host
  draws), and its first frame raises \<^verbatim>\<open>TypeError\<close>, where the claim has the linear easing
  used and frames produced.
\<close>

theorem docstring_name_not_linear:
  "getattr_EasingFunctions inherited_sample ''__doc__'' = NotCallable \<and>
   getattr_EasingFunctions_st inherited_sample ''__doc__'' = NotCallable \<and>
   (\<exists>a. smooth_transition inherited_sample to_rgb_sample np_array_sample
          (PyDict [(''y'', NdArray [1, 2])]) (PyDict [(''y'', NdArray [3, 4])]) 1.0 30
          (EasingName ''__doc__'') ''line'' [] = Inr a \<and>
        anim_frames a = 30 \<and> anim_func a 0 = Inl TypeError) \<and>
   (\<exists>a. smooth_transition_st plots_sample inherited_sample
          [(''x'', PyList [Num 0, Num 1]), (''y'', NdArray [1, 2])]
          [(''x'', PyList [Num 0, Num 1]), (''y'', NdArray [3, 4])] 1.0 30 ''__doc__'' ''line'' =
          Inr a \<and>
        anim_frames a = 30 \<and> anim_func a 0 = Inl TypeError)"
proof -
  have g: "getattr_EasingFunctions inherited_sample ''__doc__'' = NotCallable"
    and h: "getattr_EasingFunctions_st inherited_sample ''__doc__'' = NotCallable"
    by (simp_all add: getattr_EasingFunctions_def getattr_EasingFunctions_st_def
        map_of_EasingFunctions_doc)
  have n: "num_frames 1.0 30 = 30"
    using num_frames_examples(2) by simp
  have "\<exists>a. smooth_transition inherited_sample to_rgb_sample np_array_sample
          (PyDict [(''y'', NdArray [1, 2])]) (PyDict [(''y'', NdArray [3, 4])]) 1.0 30
          (EasingName ''__doc__'') ''line'' [] = Inr a \<and>
        anim_frames a = 30 \<and> anim_func a 0 = Inl TypeError"
    using g n
    by (simp add: smooth_transition_def bind_err_def Let_def animate_def FuncAnimation_def)
  moreover have "\<exists>a. smooth_transition_st plots_sample inherited_sample
          [(''x'', PyList [Num 0, Num 1]), (''y'', NdArray [1, 2])]
          [(''x'', PyList [Num 0, Num 1]), (''y'', NdArray [3, 4])] 1.0 30 ''__doc__'' ''line'' =
          Inr a \<and>
        anim_frames a = 30 \<and> anim_func a 0 = Inl TypeError"
    using h n
    by (simp add: smooth_transition_st_def Let_def animate_st_def FuncAnimation_def
        dict_get_def plots_sample_def)
  ultimately show ?thesis
    using g h by blast
qed

text \<open>The same call with a name that is no attribute at all: the first frame is drawn,
  at progress 0, from the "from" data. Without \<^verbatim>\<open>'x'\<close> in the data the constructor of
  \<^verbatim>\<open>smooth_transitions.py\<close> already fails, whatever the easing: a host that compares
  lengths cannot plot an empty \<^verbatim>\<open>x\<close> against two values.\<close>

lemma unknown_name_first_frame:
  "\<exists>a. smooth_transition inherited_sample to_rgb_sample np_array_sample
          (PyDict [(''y'', NdArray [1, 2])]) (PyDict [(''y'', NdArray [3, 4])]) 1.0 30
          (EasingName ''bounce'') ''line'' [] = Inr a \<and>
        anim_frames a = 30 \<and>
        anim_func a 0 = Inr [Draw ''plot'' [PyList [Num 0, Num 1], NdArray [1, 2]] []]"
proof -
  have g: "getattr_EasingFunctions inherited_sample ''bounce'' = Callable (\<lambda>t. Inr (linear_easing t))"
    by (rule getattr_unknown_name) (simp_all add: EasingFunctions_def inherited_sample_def)
  have n: "num_frames 1.0 30 = 30"
    using num_frames_examples(2) by simp
  have p: "frame_progress 30 0 = 0"
    by (simp add: frame_progress_def)
  have i: "interpolate_values to_rgb_sample (NdArray [1, 2]) (NdArray [3, 4]) 0 = Inr (NdArray [1, 2])"
    by (simp add: interpolate_values_ndarray np_blend_def blend_def)
  show ?thesis
    using g n p i
    by (simp add: smooth_transition_def bind_err_def Let_def animate_def linear_easing_def
        interpolate_data_def draw_frame_def dict_item_def py_range_def upt_rec FuncAnimation_def)
qed

lemma missing_x_fails_in_constructor:
  "smooth_transition_st plots_sample inherited_sample [(''y'', NdArray [1, 2])]
     [(''y'', NdArray [3, 4])] 1.0 30 ''linear'' ''line'' = Inl ValueError"
  by (simp add: smooth_transition_st_def Let_def dict_get_def plots_sample_def)

section \<open>Pairing the elements of two figure states\<close>

lemma bind_err_Inr: "bind_err r f = Inr v \<Longrightarrow> \<exists>u. r = Inr u \<and> f u = Inr v"
  by (cases r) (simp_all add: bind_err_def)

lemma length_concat_singletons:
  "(\<And>x. x \<in> set xss \<Longrightarrow> length x = 1) \<Longrightarrow> length (concat xss) = length xss"
  by (induction xss) simp_all

lemma render_collection_scatter:
  "coll_type from_coll = ''scatter'' \<Longrightarrow> coll_type to_coll = ''scatter'' \<Longrightarrow>
   render_collection to_rgb from_coll to_coll p = Inr ds \<Longrightarrow> length ds = 1"
  unfolding render_collection_def
  by (auto dest!: bind_err_Inr)

lemma render_patch_rectangle:
  "patch_type from_patch = ''rectangle'' \<Longrightarrow> patch_type to_patch = ''rectangle'' \<Longrightarrow>
   render_patch to_rgb from_patch to_patch p = Inr ds \<Longrightarrow> length ds = 1"
  unfolding render_patch_def
  by (auto dest!: bind_err_Inr)

lemma sequence_sum_singletons:
  assumes "sequence_sum (map f [0..<n]) = Inr xss"
    and "\<And>j ds. j < n \<Longrightarrow> f j = Inr ds \<Longrightarrow> length ds = 1"
  shows "length (concat xss) = n"
proof -
  have len: "length xss = n"
    using sequence_sum_length [OF assms(1)] by simp
  have "length x = 1" if "x \<in> set xss" for x
  proof -
    from that obtain j where j: "j < length xss" "xss ! j = x"
      by (auto simp: in_set_conv_nth)
    with len have "f j = Inr x"
      using sequence_sum_nth [OF assms(1), of j] by simp
    with j len show ?thesis
      using assms(2) by simp
  qed
  then show ?thesis
    using len by (simp add: length_concat_singletons)
qed

lemma render_axes_Inr:
  assumes "render_axes to_rgb fa ta p = Inr out"
  obtains lines scatters rects where
    "sequence_sum (map (\<lambda>j. render_line to_rgb (ax_lines fa ! j) (ax_lines ta ! j) p)
       [0..<min (length (ax_lines fa)) (length (ax_lines ta))]) = Inr lines"
    and "sequence_sum (map (\<lambda>j. render_collection to_rgb (ax_collections fa ! j)
         (ax_collections ta ! j) p)
       [0..<min (length (ax_collections fa)) (length (ax_collections ta))]) = Inr scatters"
    and "sequence_sum (map (\<lambda>j. render_patch to_rgb (ax_patches fa ! j) (ax_patches ta ! j) p)
       [0..<min (length (ax_patches fa)) (length (ax_patches ta))]) = Inr rects"
    and "da_lines out = lines" and "da_scatters out = concat scatters"
    and "da_rects out = concat rects"
  using assms unfolding render_axes_def Let_def
  by (auto dest!: bind_err_Inr)

lemma render_axes_counts:
  assumes r: "render_axes to_rgb fa ta p = Inr out" and "extracted fa" and "extracted ta"
  shows "length (da_lines out) = min (length (ax_lines fa)) (length (ax_lines ta))"
    and "length (da_scatters out) = min (length (ax_collections fa)) (length (ax_collections ta))"
    and "length (da_rects out) = min (length (ax_patches fa)) (length (ax_patches ta))"
    and "\<And>j. j < min (length (ax_lines fa)) (length (ax_lines ta)) \<Longrightarrow>
      render_line to_rgb (ax_lines fa ! j) (ax_lines ta ! j) p = Inr (da_lines out ! j)"
proof -
  from r obtain lines scatters rects where
    l: "sequence_sum (map (\<lambda>j. render_line to_rgb (ax_lines fa ! j) (ax_lines ta ! j) p)
       [0..<min (length (ax_lines fa)) (length (ax_lines ta))]) = Inr lines"
    and s: "sequence_sum (map (\<lambda>j. render_collection to_rgb (ax_collections fa ! j)
         (ax_collections ta ! j) p)
       [0..<min (length (ax_collections fa)) (length (ax_collections ta))]) = Inr scatters"
    and q: "sequence_sum (map (\<lambda>j. render_patch to_rgb (ax_patches fa ! j) (ax_patches ta ! j) p)
       [0..<min (length (ax_patches fa)) (length (ax_patches ta))]) = Inr rects"
    and out: "da_lines out = lines" "da_scatters out = concat scatters"
      "da_rects out = concat rects"
    by (rule render_axes_Inr)
  show "length (da_lines out) = min (length (ax_lines fa)) (length (ax_lines ta))"
    using sequence_sum_length [OF l] out by simp
  show "render_line to_rgb (ax_lines fa ! j) (ax_lines ta ! j) p = Inr (da_lines out ! j)"
    if "j < min (length (ax_lines fa)) (length (ax_lines ta))" for j
    using sequence_sum_nth [OF l, of j] that out by simp
  have "length (concat scatters) = min (length (ax_collections fa)) (length (ax_collections ta))"
  proof (rule sequence_sum_singletons [OF s])
    fix j ds
    assume j: "j < min (length (ax_collections fa)) (length (ax_collections ta))"
      and d: "render_collection to_rgb (ax_collections fa ! j) (ax_collections ta ! j) p = Inr ds"
    from j assms(2,3) have "coll_type (ax_collections fa ! j) = ''scatter''"
      and "coll_type (ax_collections ta ! j) = ''scatter''"
      by (simp_all add: extracted_def list_all_length)
    then show "length ds = 1"
      using d by (rule render_collection_scatter)
  qed
  then show "length (da_scatters out) = min (length (ax_collections fa)) (length (ax_collections ta))"
    using out by simp
  have "length (concat rects) = min (length (ax_patches fa)) (length (ax_patches ta))"
  proof (rule sequence_sum_singletons [OF q])
    fix j ds
    assume j: "j < min (length (ax_patches fa)) (length (ax_patches ta))"
      and d: "render_patch to_rgb (ax_patches fa ! j) (ax_patches ta ! j) p = Inr ds"
    from j assms(2,3) have "patch_type (ax_patches fa ! j) = ''rectangle''"
      and "patch_type (ax_patches ta ! j) = ''rectangle''"
      by (simp_all add: extracted_def list_all_length)
    then show "length ds = 1"
      using d by (rule render_patch_rectangle)
  qed
  then show "length (da_rects out) = min (length (ax_patches fa)) (length (ax_patches ta))"
    using out by simp
qed

text \<open>The elements past the shorter of two lists are never read.\<close>

lemma render_axes_paired:
  "render_axes to_rgb (paired a b) (paired b a) p = render_axes to_rgb a b p"
proof -
  have l: "map (\<lambda>j. render_line to_rgb
        (take (min (length (ax_lines a)) (length (ax_lines b))) (ax_lines a) ! j)
        (take (min (length (ax_lines b)) (length (ax_lines a))) (ax_lines b) ! j) p)
      [0..<min (length (ax_lines a)) (length (ax_lines b))] =
    map (\<lambda>j. render_line to_rgb (ax_lines a ! j) (ax_lines b ! j) p)
      [0..<min (length (ax_lines a)) (length (ax_lines b))]"
    by simp
  have c: "map (\<lambda>j. render_collection to_rgb
        (take (min (length (ax_collections a)) (length (ax_collections b))) (ax_collections a) ! j)
        (take (min (length (ax_collections b)) (length (ax_collections a))) (ax_collections b) ! j) p)
      [0..<min (length (ax_collections a)) (length (ax_collections b))] =
    map (\<lambda>j. render_collection to_rgb (ax_collections a ! j) (ax_collections b ! j) p)
      [0..<min (length (ax_collections a)) (length (ax_collections b))]"
    by simp
  have q: "map (\<lambda>j. render_patch to_rgb
        (take (min (length (ax_patches a)) (length (ax_patches b))) (ax_patches a) ! j)
        (take (min (length (ax_patches b)) (length (ax_patches a))) (ax_patches b) ! j) p)
      [0..<min (length (ax_patches a)) (length (ax_patches b))] =
    map (\<lambda>j. render_patch to_rgb (ax_patches a ! j) (ax_patches b ! j) p)
      [0..<min (length (ax_patches a)) (length (ax_patches b))]"
    by simp
  show ?thesis
    unfolding render_axes_def paired_def
    by (simp add: l c q)
qed

lemma animate_figure_Inr:
  assumes "animate_figure to_rgb easing_func from_states to_states n frame = Inr fig"
  obtains e where "call easing_func (frame_progress n frame) = Inr e"
    and "sequence_sum (map (\<lambda>i. render_axes to_rgb (fig_axes from_states ! i)
         (fig_axes to_states ! i) e)
       [0..<min (length (fig_axes from_states)) (length (fig_axes to_states))]) =
       Inr (df_axes fig)"
  using assms unfolding animate_figure_def render_interpolated_figure_def Let_def
  by (auto dest!: bind_err_Inr)

lemma render_line_interpolated:
  "render_line to_rgb f t e = Inr d \<Longrightarrow> interpolated_line to_rgb f t e d"
  unfolding render_line_def interpolated_line_def
  by (auto dest!: bind_err_Inr)

lemma render_collection_interpolated:
  assumes "coll_type f = ''scatter''" and "coll_type t = ''scatter''"
    and "render_collection to_rgb f t e = Inr ds"
  shows "\<exists>d. ds = [d] \<and> interpolated_scatter to_rgb f t e d"
  using assms unfolding render_collection_def interpolated_scatter_def
  by (auto dest!: bind_err_Inr)

lemma render_patch_interpolated:
  assumes "patch_type f = ''rectangle''" and "patch_type t = ''rectangle''"
    and "render_patch to_rgb f t e = Inr ds"
  shows "\<exists>d. ds = [d] \<and> interpolated_rect to_rgb f t e d"
  using assms unfolding render_patch_def interpolated_rect_def
  by (auto dest!: bind_err_Inr)

lemma concat_singletons_nth:
  "(\<And>x. x \<in> set xss \<Longrightarrow> length x = 1) \<Longrightarrow> j < length xss \<Longrightarrow> xss ! j = [concat xss ! j]"
proof (induction xss arbitrary: j)
  case Nil
  then show ?case by simp
next
  case (Cons x xss)
  from Cons.prems(1) [of x] obtain y where x: "x = [y]"
    by (cases x) auto
  show ?case
  proof (cases j)
    case 0
    then show ?thesis using x by simp
  next
    case (Suc k)
    with Cons.prems have "xss ! k = [concat xss ! k]"
      by (intro Cons.IH) auto
    with Suc x show ?thesis by simp
  qed
qed

lemma sequence_sum_singletons_nth:
  assumes "sequence_sum (map f [0..<n]) = Inr xss"
    and "\<And>j ds. j < n \<Longrightarrow> f j = Inr ds \<Longrightarrow> length ds = 1"
    and "j < n"
  shows "f j = Inr [concat xss ! j]"
proof -
  have len: "length xss = n"
    using sequence_sum_length [OF assms(1)] by simp
  have nth: "f k = Inr (xss ! k)" if "k < n" for k
    using sequence_sum_nth [OF assms(1), of k] that by simp
  have "length x = 1" if "x \<in> set xss" for x
  proof -
    from that obtain k where k: "k < length xss" "xss ! k = x"
      by (auto simp: in_set_conv_nth)
    with len nth [of k] show ?thesis
      using assms(2) by simp
  qed
  then have "xss ! j = [concat xss ! j]"
    using assms(3) len by (intro concat_singletons_nth) simp_all
  with nth [OF assms(3)] show ?thesis
    by simp
qed

lemma render_axes_interpolated:
  assumes r: "render_axes to_rgb fa ta p = Inr out" and "extracted fa" and "extracted ta"
  shows "\<And>j. j < length (da_lines out) \<Longrightarrow>
      interpolated_line to_rgb (ax_lines fa ! j) (ax_lines ta ! j) p (da_lines out ! j)"
    and "\<And>j. j < length (da_scatters out) \<Longrightarrow>
      interpolated_scatter to_rgb (ax_collections fa ! j) (ax_collections ta ! j) p
        (da_scatters out ! j)"
    and "\<And>j. j < length (da_rects out) \<Longrightarrow>
      interpolated_rect to_rgb (ax_patches fa ! j) (ax_patches ta ! j) p (da_rects out ! j)"
proof -
  from r obtain lines scatters rects where
    s: "sequence_sum (map (\<lambda>j. render_collection to_rgb (ax_collections fa ! j)
         (ax_collections ta ! j) p)
       [0..<min (length (ax_collections fa)) (length (ax_collections ta))]) = Inr scatters"
    and q: "sequence_sum (map (\<lambda>j. render_patch to_rgb (ax_patches fa ! j) (ax_patches ta ! j) p)
       [0..<min (length (ax_patches fa)) (length (ax_patches ta))]) = Inr rects"
    and out: "da_scatters out = concat scatters" "da_rects out = concat rects"
    by (rule render_axes_Inr)
  note counts = render_axes_counts [OF assms]
  show "interpolated_line to_rgb (ax_lines fa ! j) (ax_lines ta ! j) p (da_lines out ! j)"
    if "j < length (da_lines out)" for j
    using that counts(1) counts(4) [of j] by (simp add: render_line_interpolated)
  show "interpolated_scatter to_rgb (ax_collections fa ! j) (ax_collections ta ! j) p
      (da_scatters out ! j)" if "j < length (da_scatters out)" for j
  proof -
    from that counts(2)
    have j: "j < min (length (ax_collections fa)) (length (ax_collections ta))"
      by simp
    with assms(2,3) have ty: "coll_type (ax_collections fa ! j) = ''scatter''"
      "coll_type (ax_collections ta ! j) = ''scatter''"
      by (simp_all add: extracted_def list_all_length)
    have one: "length ds = 1"
      if "k < min (length (ax_collections fa)) (length (ax_collections ta))"
        and "render_collection to_rgb (ax_collections fa ! k) (ax_collections ta ! k) p = Inr ds"
      for k ds
    proof -
      from that(1) assms(2,3) have "coll_type (ax_collections fa ! k) = ''scatter''"
        "coll_type (ax_collections ta ! k) = ''scatter''"
        by (simp_all add: extracted_def list_all_length)
      then show ?thesis
        using that(2) by (rule render_collection_scatter)
    qed
    have "render_collection to_rgb (ax_collections fa ! j) (ax_collections ta ! j) p =
        Inr [concat scatters ! j]"
      by (rule sequence_sum_singletons_nth [OF s one j])
    with render_collection_interpolated [OF ty] out show ?thesis
      by fastforce
  qed
  show "interpolated_rect to_rgb (ax_patches fa ! j) (ax_patches ta ! j) p (da_rects out ! j)"
    if "j < length (da_rects out)" for j
  proof -
    from that counts(3)
    have j: "j < min (length (ax_patches fa)) (length (ax_patches ta))"
      by simp
    with assms(2,3) have ty: "patch_type (ax_patches fa ! j) = ''rectangle''"
      "patch_type (ax_patches ta ! j) = ''rectangle''"
      by (simp_all add: extracted_def list_all_length)
    have one: "length ds = 1"
      if "k < min (length (ax_patches fa)) (length (ax_patches ta))"
        and "render_patch to_rgb (ax_patches fa ! k) (ax_patches ta ! k) p = Inr ds"
      for k ds
    proof -
      from that(1) assms(2,3) have "patch_type (ax_patches fa ! k) = ''rectangle''"
        "patch_type (ax_patches ta ! k) = ''rectangle''"
        by (simp_all add: extracted_def list_all_length)
      then show ?thesis
        using that(2) by (rule render_patch_rectangle)
    qed
    have "render_patch to_rgb (ax_patches fa ! j) (ax_patches ta ! j) p = Inr [concat rects ! j]"
      by (rule sequence_sum_singletons_nth [OF q one j])
    with render_patch_interpolated [OF ty] out show ?thesis
      by fastforce
  qed
qed

lemma animate_crossfade_Inr:
  assumes "animate_crossfade easing_func ax_from ax_to n frame = Inr cf"
  obtains e where "call easing_func (frame_progress_st n frame) = Inr e"
    and "cf_lines cf = map (fade (1 - e)) (ax_lines ax_from) @ map (fade e) (ax_lines ax_to)"
  using assms unfolding animate_crossfade_def Let_def
  by (auto dest!: bind_err_Inr)

text \<open>
  Claim C6, as the code has it. In every frame that a transition between two figure
  states of \<^verbatim>\<open>transitions.py\<close> delivers, the axes are the first \<open>min\<close> pairs of axes, and on each
  of them the lines drawn are exactly the first \<open>min(countFrom, countTo)\<close> pairs of lines,
  the line at position \<open>j\<close> being the interpolation of the two lines at position \<open>j\<close> at the
  eased progress of the frame; likewise the scatter collections and the rectangles of
  states that \<^verbatim>\<open>_extract_figure_state\<close> built. The elements past that index are not read:
  cutting both states down to the paired elements changes no frame. Three lines against
  two give two drawn lines. \<^verbatim>\<open>transition_plot_state\<close> of \<^verbatim>\<open>smooth_transitions.py\<close> pairs
  nothing: each of its frames draws every line of both figures, those of the "from" figure
  with alpha \<open>1 - e\<close> and those of the "to" figure with alpha \<open>e\<close>, at the eased progress \<open>e\<close>.
\<close>

theorem positional_pairing:
  assumes "animate_figure to_rgb easing_func from_states to_states n frame = Inr fig"
    and "list_all extracted (fig_axes from_states)"
    and "list_all extracted (fig_axes to_states)"
  shows "length (df_axes fig) = min (length (fig_axes from_states)) (length (fig_axes to_states)) \<and>
    (\<exists>e. call easing_func (frame_progress n frame) = Inr e \<and>
      (\<forall>i < length (df_axes fig).
         length (da_lines (df_axes fig ! i)) =
           min (length (ax_lines (fig_axes from_states ! i)))
               (length (ax_lines (fig_axes to_states ! i))) \<and>
         length (da_scatters (df_axes fig ! i)) =
           min (length (ax_collections (fig_axes from_states ! i)))
               (length (ax_collections (fig_axes to_states ! i))) \<and>
         length (da_rects (df_axes fig ! i)) =
           min (length (ax_patches (fig_axes from_states ! i)))
               (length (ax_patches (fig_axes to_states ! i))) \<and>
         (\<forall>j < length (da_lines (df_axes fig ! i)).
            interpolated_line to_rgb (ax_lines (fig_axes from_states ! i) ! j)
              (ax_lines (fig_axes to_states ! i) ! j) e (da_lines (df_axes fig ! i) ! j)) \<and>
         (\<forall>j < length (da_scatters (df_axes fig ! i)).
            interpolated_scatter to_rgb (ax_collections (fig_axes from_states ! i) ! j)
              (ax_collections (fig_axes to_states ! i) ! j) e (da_scatters (df_axes fig ! i) ! j)) \<and>
         (\<forall>j < length (da_rects (df_axes fig ! i)).
            interpolated_rect to_rgb (ax_patches (fig_axes from_states ! i) ! j)
              (ax_patches (fig_axes to_states ! i) ! j) e (da_rects (df_axes fig ! i) ! j)))) \<and>
    render_axes to_rgb (paired a b) (paired b a) p = render_axes to_rgb a b p \<and>
    (animate_crossfade easing_func' ax_from ax_to n' frame' = Inr cf \<longrightarrow>
       (\<exists>e. call easing_func' (frame_progress_st n' frame') = Inr e \<and>
          cf_lines cf = map (fade (1 - e)) (ax_lines ax_from) @ map (fade e) (ax_lines ax_to)) \<and>
       length (cf_lines cf) = length (ax_lines ax_from) + length (ax_lines ax_to))"
proof -
  from assms(1) obtain e where e: "call easing_func (frame_progress n frame) = Inr e"
    and s: "sequence_sum (map (\<lambda>i. render_axes to_rgb (fig_axes from_states ! i)
         (fig_axes to_states ! i) e)
       [0..<min (length (fig_axes from_states)) (length (fig_axes to_states))]) =
       Inr (df_axes fig)"
    by (rule animate_figure_Inr)
  have len: "length (df_axes fig) = min (length (fig_axes from_states)) (length (fig_axes to_states))"
    using sequence_sum_length [OF s] by simp
  have each: "length (da_lines (df_axes fig ! i)) =
           min (length (ax_lines (fig_axes from_states ! i)))
               (length (ax_lines (fig_axes to_states ! i))) \<and>
         length (da_scatters (df_axes fig ! i)) =
           min (length (ax_collections (fig_axes from_states ! i)))
               (length (ax_collections (fig_axes to_states ! i))) \<and>
         length (da_rects (df_axes fig ! i)) =
           min (length (ax_patches (fig_axes from_states ! i)))
               (length (ax_patches (fig_axes to_states ! i))) \<and>
         (\<forall>j < length (da_lines (df_axes fig ! i)).
            interpolated_line to_rgb (ax_lines (fig_axes from_states ! i) ! j)
              (ax_lines (fig_axes to_states ! i) ! j) e (da_lines (df_axes fig ! i) ! j)) \<and>
         (\<forall>j < length (da_scatters (df_axes fig ! i)).
            interpolated_scatter to_rgb (ax_collections (fig_axes from_states ! i) ! j)
              (ax_collections (fig_axes to_states ! i) ! j) e (da_scatters (df_axes fig ! i) ! j)) \<and>
         (\<forall>j < length (da_rects (df_axes fig ! i)).
            interpolated_rect to_rgb (ax_patches (fig_axes from_states ! i) ! j)
              (ax_patches (fig_axes to_states ! i) ! j) e (da_rects (df_axes fig ! i) ! j))"
    if i: "i < length (df_axes fig)" for i
  proof -
    from i len have r: "render_axes to_rgb (fig_axes from_states ! i) (fig_axes to_states ! i) e =
        Inr (df_axes fig ! i)"
      using sequence_sum_nth [OF s, of i] by simp
    from i len assms(2,3) have x: "extracted (fig_axes from_states ! i)"
      "extracted (fig_axes to_states ! i)"
      by (simp_all add: list_all_length)
    show ?thesis
      using render_axes_counts(1,2,3) [OF r x] render_axes_interpolated [OF r x] by blast
  qed
  have cross: "(\<exists>e. call easing_func' (frame_progress_st n' frame') = Inr e \<and>
          cf_lines cf = map (fade (1 - e)) (ax_lines ax_from) @ map (fade e) (ax_lines ax_to)) \<and>
       length (cf_lines cf) = length (ax_lines ax_from) + length (ax_lines ax_to)"
    if "animate_crossfade easing_func' ax_from ax_to n' frame' = Inr cf"
  proof -
    from that obtain e' where "call easing_func' (frame_progress_st n' frame') = Inr e'"
      and l: "cf_lines cf = map (fade (1 - e')) (ax_lines ax_from) @ map (fade e') (ax_lines ax_to)"
      by (rule animate_crossfade_Inr)
    moreover from l have "length (cf_lines cf) = length (ax_lines ax_from) + length (ax_lines ax_to)"
      by simp
    ultimately show ?thesis by blast
  qed
  show ?thesis
    using len e each render_axes_paired cross by blast
qed

lemma interpolate_values_colors:
  assumes "to_rgb s = Some (r, g, b)" and "to_rgb s' = Some (r', g', b')"
  shows "interpolate_values to_rgb (PyStr s) (PyStr s') p =
    Inr (PyList [Num (r + (r' - r) * p), Num (g + (g' - g) * p), Num (b + (b' - b) * p)])"
proof -
  have "interpolate_values to_rgb (PyTuple [Num r, Num g, Num b]) (PyTuple [Num r', Num g', Num b']) p =
      Inr (PyList [Num (r + (r' - r) * p), Num (g + (g' - g) * p), Num (b + (b' - b) * p)])"
    using interpolate_values_numbers [of "PyTuple [Num r, Num g, Num b]"
        "PyTuple [Num r', Num g', Num b']" "[r, g, b]" "[r', g', b']" to_rgb p]
    by simp
  then show ?thesis
    using assms by (subst interpolate_values.simps) simp
qed

lemma render_line_sample:
  "render_line to_rgb_sample (sample_line y ''red'') (sample_line y' ''blue'') e =
   Inr (Line2D (NdArray [0, 1]) (NdArray [y + (y' - y) * e, y + (y' - y) * e])
     (PyList [Num (1 - e), Num 0, Num e]) (Num 1.5) (PyStr ''-'') (PyStr ''None'') (Num 6))"
proof -
  have c: "interpolate_values to_rgb_sample (PyStr ''red'') (PyStr ''blue'') e =
      Inr (PyList [Num (1 - e), Num 0, Num e])"
    using interpolate_values_colors [of to_rgb_sample "''red''" 1 0 0 "''blue''" 0 0 1 e]
    by (simp add: to_rgb_sample_def)
  show ?thesis
    by (simp add: render_line_def sample_line_def bind_err_def interpolate_values_ndarray
        np_blend_def blend_def interpolate_values_Num c)
qed

lemma sample_extracted: "list_all extracted (fig_axes (sample_figure ls))"
  by (simp add: sample_figure_def sample_axes_def extracted_def)

lemma animate_sample:
  "\<exists>fig. animate_figure to_rgb_sample (Callable (\<lambda>t. Inr (linear_easing t)))
      (sample_figure [sample_line 1 ''red'', sample_line 2 ''red'', sample_line 3 ''red''])
      (sample_figure [sample_line 2 ''blue'', sample_line 3 ''blue'']) 60 30 = Inr fig"
proof -
  have lim: "interpolate_values to_rgb_sample (PyTuple [Num a, Num b]) (PyTuple [Num a, Num b]) e =
      Inr (PyList [Num a, Num b])" for a b e
    using interpolate_values_numbers [of "PyTuple [Num a, Num b]" "PyTuple [Num a, Num b]"
        "[a, b]" "[a, b]" to_rgb_sample e]
    by simp
  have face: "interpolate_values to_rgb_sample (PyTuple [Num 1, Num 1, Num 1, Num 1])
      (PyTuple [Num 1, Num 1, Num 1, Num 1]) e = Inr (PyList [Num 1, Num 1, Num 1, Num 1])" for e
    using interpolate_values_rgba_tuple [of to_rgb_sample 1 1 1 1 1 1 1 1 e] by simp
  have props: "interpolate_values to_rgb_sample (PyDict d) (PyDict d) e = Inr (PyDict d)" for d e
    by (simp add: interpolate_values_default threshold_switch_def)
  have two: "[0..<2] = [0, 1]"
    by (simp add: upt_rec)
  show ?thesis
    by (simp add: animate_figure_def render_interpolated_figure_def render_axes_def
        sample_figure_def sample_axes_def bind_err_def Let_def lim face props two
        render_line_sample dict_item_def)
qed

lemma crossfade_sample:
  "animate_crossfade (Callable (\<lambda>t. Inr (linear_st t)))
     (sample_axes [sample_line 1 ''red'', sample_line 2 ''red'', sample_line 3 ''red''])
     (sample_axes [sample_line 2 ''blue'', sample_line 3 ''blue'']) 60 30 =
   Inr \<lparr>cf_lines =
          map (fade (29 / 59)) [sample_line 1 ''red'', sample_line 2 ''red'', sample_line 3 ''red''] @
          map (fade (30 / 59)) [sample_line 2 ''blue'', sample_line 3 ''blue''],
        cf_xlim = Array [0, 1], cf_ylim = Array [0, 4],
        cf_xlabel = PyStr ''x'', cf_ylabel = PyStr ''y'', cf_title = PyStr ''title''\<rparr>"
proof -
  have p: "frame_progress_st 60 30 = 30 / 59"
    by (simp add: frame_progress_st_def)
  show ?thesis
    by (simp add: animate_crossfade_def Let_def p linear_st_def bind_err_def sample_axes_def
        np_blend_def blend_def)
qed

theorem positional_pairing_witness:
  "\<exists>fig cf. animate_figure to_rgb_sample (Callable (\<lambda>t. Inr (linear_easing t)))
      (sample_figure [sample_line 1 ''red'', sample_line 2 ''red'', sample_line 3 ''red''])
      (sample_figure [sample_line 2 ''blue'', sample_line 3 ''blue'']) 60 30 = Inr fig \<and>
    list_all extracted
      (fig_axes (sample_figure [sample_line 1 ''red'', sample_line 2 ''red'', sample_line 3 ''red''])) \<and>
    list_all extracted (fig_axes (sample_figure [sample_line 2 ''blue'', sample_line 3 ''blue''])) \<and>
    length (df_axes fig) = 1 \<and> length (da_lines (df_axes fig ! 0)) = 2 \<and>
    animate_crossfade (Callable (\<lambda>t. Inr (linear_st t)))
      (sample_axes [sample_line 1 ''red'', sample_line 2 ''red'', sample_line 3 ''red''])
      (sample_axes [sample_line 2 ''blue'', sample_line 3 ''blue'']) 60 30 = Inr cf \<and>
    length (cf_lines cf) = 5"
proof -
  let ?f = "sample_figure [sample_line 1 ''red'', sample_line 2 ''red'', sample_line 3 ''red'']"
  let ?t = "sample_figure [sample_line 2 ''blue'', sample_line 3 ''blue'']"
  let ?fa = "sample_axes [sample_line 1 ''red'', sample_line 2 ''red'', sample_line 3 ''red'']"
  let ?ta = "sample_axes [sample_line 2 ''blue'', sample_line 3 ''blue'']"
  obtain fig where fig: "animate_figure to_rgb_sample (Callable (\<lambda>t. Inr (linear_easing t)))
      ?f ?t 60 30 = Inr fig"
    using animate_sample by blast
  obtain cf where cf: "animate_crossfade (Callable (\<lambda>t. Inr (linear_st t))) ?fa ?ta 60 30 = Inr cf"
    using crossfade_sample by blast
  have x: "list_all extracted (fig_axes ?f)" "list_all extracted (fig_axes ?t)"
    by (rule sample_extracted)+
  note pp = positional_pairing [OF fig x, where easing_func' = "Callable (\<lambda>t. Inr (linear_st t))"
      and ax_from = ?fa and ax_to = ?ta and n' = 60 and frame' = 30 and cf = cf]
  have l: "length (df_axes fig) = min (length (fig_axes ?f)) (length (fig_axes ?t))"
    using pp by blast
  then have one: "length (df_axes fig) = 1"
    by (simp add: sample_figure_def)
  then have "0 < length (df_axes fig)"
    by simp
  with pp
  have "length (da_lines (df_axes fig ! 0)) =
      min (length (ax_lines (fig_axes ?f ! 0))) (length (ax_lines (fig_axes ?t ! 0)))"
    by blast
  then have two: "length (da_lines (df_axes fig ! 0)) = 2"
    by (simp add: sample_figure_def sample_axes_def)
  from pp cf have "length (cf_lines cf) = length (ax_lines ?fa) + length (ax_lines ?ta)"
    by blast
  then have five: "length (cf_lines cf) = 5"
    by (simp add: sample_axes_def)
  from fig x one two cf five show ?thesis
    by blast
qed

text \<open>
  Claim C6 as the specification states it has the elements past the shorter state absent
  from every frame. In \<^verbatim>\<open>smooth_transitions.py\<close>, three lines against two give frames of five
  lines: frame 30 of 60 draws the third line of the "from" figure, at alpha \<open>29 / 59\<close>.
\<close>

theorem crossfade_counterexample:
  "map_sum id (\<lambda>cf. length (cf_lines cf))
     (animate_crossfade (Callable (\<lambda>t. Inr (linear_st t)))
        (sample_axes [sample_line 1 ''red'', sample_line 2 ''red'', sample_line 3 ''red''])
        (sample_axes [sample_line 2 ''blue'', sample_line 3 ''blue'']) 60 30) = Inr 5 \<and>
   map_sum id (\<lambda>cf. cf_lines cf ! 2)
     (animate_crossfade (Callable (\<lambda>t. Inr (linear_st t)))
        (sample_axes [sample_line 1 ''red'', sample_line 2 ''red'', sample_line 3 ''red''])
        (sample_axes [sample_line 2 ''blue'', sample_line 3 ''blue'']) 60 30) =
     Inr (fade (29 / 59) (sample_line 3 ''red''))"
  by (simp add: crossfade_sample)

end
